theory Spec2Isabelle
  imports Main "HOL-Library.Word" "HOL-Library.AList"
begin

unbundle bit_operations_syntax

section \<open>Strings, bytes and UTF-8\<close>

text \<open>
  A JavaScript string is a sequence of 16-bit code units; \<open>s.length\<close> counts code units.
  A Node \<open>Buffer\<close> is a sequence of bytes.
\<close>

type_synonym codeunit = "16 word"
type_synonym jsstring = "codeunit list"
type_synonym byte = "8 word"
type_synonym buffer = "byte list"

text \<open>An ASCII literal of the source, as a JavaScript string.\<close>

definition js :: "string \<Rightarrow> jsstring" where
  "js s = map (\<lambda>c. of_nat (of_char c)) s"

definition is_high_surrogate :: "codeunit \<Rightarrow> bool" where
  "is_high_surrogate u = (0xD800 \<le> unat u \<and> unat u < 0xDC00)"

definition is_low_surrogate :: "codeunit \<Rightarrow> bool" where
  "is_low_surrogate u = (0xDC00 \<le> unat u \<and> unat u < 0xE000)"

text \<open>
  The code points of a string, as Node's UTF-8 encoder reads them: a high surrogate followed
  by a low surrogate is one supplementary code point, any other surrogate is replaced by
  U+FFFD.
\<close>

fun code_points :: "jsstring \<Rightarrow> nat list" where
  "code_points [] = []"
| "code_points [u] =
     [if is_high_surrogate u \<or> is_low_surrogate u then 0xFFFD else unat u]"
| "code_points (u # v # r) =
     (if is_high_surrogate u \<and> is_low_surrogate v
      then (0x10000 + (unat u - 0xD800) * 0x400 + (unat v - 0xDC00)) # code_points r
      else (if is_high_surrogate u \<or> is_low_surrogate u then 0xFFFD else unat u)
           # code_points (v # r))"

text \<open>The UTF-8 bytes of one code point.\<close>

definition utf8_bytes :: "nat \<Rightarrow> buffer" where
  "utf8_bytes c =
     (if c < 0x80 then [of_nat c]
      else if c < 0x800 then [of_nat (0xC0 + c div 0x40), of_nat (0x80 + c mod 0x40)]
      else if c < 0x10000 then
        [of_nat (0xE0 + c div 0x1000), of_nat (0x80 + c div 0x40 mod 0x40),
         of_nat (0x80 + c mod 0x40)]
      else
        [of_nat (0xF0 + c div 0x40000), of_nat (0x80 + c div 0x1000 mod 0x40),
         of_nat (0x80 + c div 0x40 mod 0x40), of_nat (0x80 + c mod 0x40)])"

definition utf8_chunks :: "jsstring \<Rightarrow> buffer list" where
  "utf8_chunks s = map utf8_bytes (code_points s)"

definition utf8_encode :: "jsstring \<Rightarrow> buffer" where
  "utf8_encode s = concat (utf8_chunks s)"

text \<open>\<open>Buffer.byteLength(s)\<close>: the number of bytes of the UTF-8 encoding.\<close>

definition byteLength :: "jsstring \<Rightarrow> nat" where
  "byteLength s = length (utf8_encode s)"


text \<open>A string has no lone surrogate: every high surrogate is followed by a low one.\<close>

fun well_formed :: "jsstring \<Rightarrow> bool" where
  "well_formed [] = True"
| "well_formed [u] = (\<not> is_high_surrogate u \<and> \<not> is_low_surrogate u)"
| "well_formed (u # v # r) =
     (if is_high_surrogate u then is_low_surrogate v \<and> well_formed r
      else \<not> is_low_surrogate u \<and> well_formed (v # r))"

text \<open>
  The reference UTF-8 decoder (RFC 3629) that a client applies to a text payload: it rejects
  stray continuation bytes, overlong forms, surrogates and values above U+10FFFF.
\<close>

definition is_cont :: "nat \<Rightarrow> bool" where
  "is_cont b = (0x80 \<le> b \<and> b < 0xC0)"

fun utf8_decode_points :: "nat list \<Rightarrow> nat list option" where
  "utf8_decode_points [] = Some []"
| "utf8_decode_points (b0 # r) =
     (if b0 < 0x80 then map_option ((#) b0) (utf8_decode_points r)
      else if 0xC2 \<le> b0 \<and> b0 < 0xE0 then
        (case r of
           b1 # r1 \<Rightarrow>
             if is_cont b1
             then map_option ((#) ((b0 - 0xC0) * 0x40 + (b1 - 0x80))) (utf8_decode_points r1)
             else None
         | _ \<Rightarrow> None)
      else if 0xE0 \<le> b0 \<and> b0 < 0xF0 then
        (case r of
           b1 # b2 # r2 \<Rightarrow>
             (let c = (b0 - 0xE0) * 0x1000 + (b1 - 0x80) * 0x40 + (b2 - 0x80)
              in if is_cont b1 \<and> is_cont b2 \<and> 0x800 \<le> c \<and> \<not> (0xD800 \<le> c \<and> c < 0xE000)
                 then map_option ((#) c) (utf8_decode_points r2) else None)
         | _ \<Rightarrow> None)
      else if 0xF0 \<le> b0 \<and> b0 < 0xF5 then
        (case r of
           b1 # b2 # b3 # r3 \<Rightarrow>
             (let c = (b0 - 0xF0) * 0x40000 + (b1 - 0x80) * 0x1000 + (b2 - 0x80) * 0x40 + (b3 - 0x80)
              in if is_cont b1 \<and> is_cont b2 \<and> is_cont b3 \<and> 0x10000 \<le> c \<and> c < 0x110000
                 then map_option ((#) c) (utf8_decode_points r3) else None)
         | _ \<Rightarrow> None)
      else None)"

definition utf16_units :: "nat \<Rightarrow> jsstring" where
  "utf16_units c =
     (if c < 0x10000 then [of_nat c]
      else [of_nat (0xD800 + (c - 0x10000) div 0x400), of_nat (0xDC00 + (c - 0x10000) mod 0x400)])"

definition utf8_decode :: "buffer \<Rightarrow> jsstring option" where
  "utf8_decode b = map_option (\<lambda>cs. concat (map utf16_units cs)) (utf8_decode_points (map unat b))"

text \<open>A Unicode scalar value: a code point that is not a surrogate.\<close>

definition scalar_value :: "nat \<Rightarrow> bool" where
  "scalar_value c = (c < 0x110000 \<and> \<not> (0xD800 \<le> c \<and> c < 0xE000))"

section \<open>Errors and Buffer operations\<close>

datatype error = RangeError

text \<open>\<open>String.prototype.repeat\<close>: a negative count throws.\<close>

definition String_repeat :: "jsstring \<Rightarrow> int \<Rightarrow> error + jsstring" where
  "String_repeat s n = (if n < 0 then Inl RangeError else Inr (concat (replicate (nat n) s)))"

definition Buffer_alloc :: "nat \<Rightarrow> buffer" where
  "Buffer_alloc n = replicate n 0"

definition writeUInt8 :: "nat \<Rightarrow> nat \<Rightarrow> buffer \<Rightarrow> error + buffer" where
  "writeUInt8 v off b =
     (if 255 < v \<or> length b < off + 1 then Inl RangeError else Inr (b[off := of_nat v]))"

definition writeUInt16BE :: "nat \<Rightarrow> nat \<Rightarrow> buffer \<Rightarrow> error + buffer" where
  "writeUInt16BE v off b =
     (if 65535 < v \<or> length b < off + 2 then Inl RangeError
      else Inr (b[off := of_nat (v div 256), off + 1 := of_nat (v mod 256)]))"

text \<open>
  \<open>buf.write(string, offset)\<close> copies the UTF-8 encoding for as long as whole characters
  fit; an offset beyond the end throws.
\<close>

fun write_chunks :: "buffer list \<Rightarrow> nat \<Rightarrow> buffer \<Rightarrow> buffer" where
  "write_chunks [] off b = b"
| "write_chunks (c # cs) off b =
     (if off + length c \<le> length b
      then write_chunks cs (off + length c) (take off b @ c @ drop (off + length c) b)
      else b)"

definition Buffer_write :: "jsstring \<Rightarrow> nat \<Rightarrow> buffer \<Rightarrow> error + buffer" where
  "Buffer_write s off b =
     (if length b < off then Inl RangeError else Inr (write_chunks (utf8_chunks s) off b))"

section \<open>The frame codec\<close>

text \<open>
  \<open>constructReply(data)\<close>. \<open>JSON.stringify\<close> is the parameter \<open>stringify\<close>.
\<close>

definition constructReply :: "('d \<Rightarrow> jsstring) \<Rightarrow> 'd \<Rightarrow> error + buffer" where
  "constructReply stringify data =
     (let json = stringify data;
          jsonByteLength = byteLength json;
          lengthByteCount = (if jsonByteLength < 126 then 0 else 2 :: nat);
          payloadLength = (if lengthByteCount = 0 then jsonByteLength else 126);
          buffer = Buffer_alloc (2 + lengthByteCount + jsonByteLength)
      in case writeUInt8 0x81 0 buffer of
           Inl e \<Rightarrow> Inl e
         | Inr buffer1 \<Rightarrow>
        (case writeUInt8 payloadLength 1 buffer1 of
           Inl e \<Rightarrow> Inl e
         | Inr buffer2 \<Rightarrow>
        (case (if 0 < lengthByteCount then writeUInt16BE jsonByteLength 2 buffer2
               else Inr buffer2) of
           Inl e \<Rightarrow> Inl e
         | Inr buffer3 \<Rightarrow>
             Buffer_write json (if 0 < lengthByteCount then 2 + lengthByteCount else 2) buffer3)))"

section \<open>SHA-1 and base64\<close>

text \<open>
  \<open>createHash('sha1')\<close> is SHA-1 (FIPS 180-4). The 32-bit words are naturals below
  \<open>2 ^ 32\<close> with the wrap-around written out.
\<close>

type_synonym u32 = nat

definition add32 :: "u32 \<Rightarrow> u32 \<Rightarrow> u32" where
  "add32 a b = (a + b) mod 4294967296"

definition not32 :: "u32 \<Rightarrow> u32" where
  "not32 a = 4294967295 - a"

definition rotl32 :: "nat \<Rightarrow> u32 \<Rightarrow> u32" where
  "rotl32 n w = take_bit 32 (push_bit n w) + drop_bit (32 - n) w"

fun be32_words :: "buffer \<Rightarrow> u32 list" where
  "be32_words (a # b # c # d # r) =
     (unat a * 16777216 + unat b * 65536 + unat c * 256 + unat d) # be32_words r"
| "be32_words _ = []"

definition be64_bytes :: "nat \<Rightarrow> buffer" where
  "be64_bytes n =
     [of_nat (n div 2 ^ 56), of_nat (n div 2 ^ 48), of_nat (n div 2 ^ 40), of_nat (n div 2 ^ 32),
      of_nat (n div 2 ^ 24), of_nat (n div 2 ^ 16), of_nat (n div 2 ^ 8), of_nat n]"

fun zero_bytes :: "nat \<Rightarrow> buffer" where
  "zero_bytes n = (if n = 0 then [] else 0 # zero_bytes (n - 1))"

declare zero_bytes.simps [simp del]

text \<open>Padding: a 1 bit, zeros up to 56 modulo 64 bytes, the bit length on 64 bits.\<close>

definition sha1_pad :: "buffer \<Rightarrow> buffer" where
  "sha1_pad m =
     m @ [0x80] @ zero_bytes ((119 - length m mod 64) mod 64) @ be64_bytes (8 * length m)"

text \<open>
  The message schedule, over a window of the last 16 words: \<open>sha1_schedule 64\<close> turns the
  16 words of a block into the 80 words of the rounds.
\<close>

fun sha1_schedule :: "nat \<Rightarrow> u32 list \<Rightarrow> u32 list" where
  "sha1_schedule n ws =
     (if n = 0 then ws
      else hd ws # sha1_schedule (n - 1)
             (tl ws @ [rotl32 1 (ws ! 13 XOR ws ! 8 XOR ws ! 2 XOR ws ! 0)]))"

declare sha1_schedule.simps [simp del]

type_synonym sha1_state = "u32 \<times> u32 \<times> u32 \<times> u32 \<times> u32"

text \<open>The round function and constant of each group of 20 rounds.\<close>

definition sha1_f :: "nat \<Rightarrow> u32 \<Rightarrow> u32 \<Rightarrow> u32 \<Rightarrow> u32" where
  "sha1_f q b c d =
     (if q = 0 then (b AND c) OR (not32 b AND d)
      else if q = 2 then (b AND c) OR (b AND d) OR (c AND d)
      else b XOR c XOR d)"

definition sha1_k :: "nat \<Rightarrow> u32" where
  "sha1_k q = (if q = 0 then 0x5A827999 else if q = 1 then 0x6ED9EBA1
               else if q = 2 then 0x8F1BBCDC else 0xCA62C1D6)"

fun sha1_round :: "nat \<Rightarrow> u32 \<Rightarrow> sha1_state \<Rightarrow> sha1_state" where
  "sha1_round q w (a, b, c, d, e) =
     ((rotl32 5 a + sha1_f q b c d + e + sha1_k q + w) mod 4294967296,
      a, rotl32 30 b, c, d)"

definition sha1_rounds :: "u32 list \<Rightarrow> sha1_state \<Rightarrow> sha1_state" where
  "sha1_rounds ws s =
     fold (sha1_round 3) (take 20 (drop 60 ws))
       (fold (sha1_round 2) (take 20 (drop 40 ws))
         (fold (sha1_round 1) (take 20 (drop 20 ws))
           (fold (sha1_round 0) (take 20 ws) s)))"

fun sha1_add :: "sha1_state \<Rightarrow> sha1_state \<Rightarrow> sha1_state" where
  "sha1_add (h0, h1, h2, h3, h4) (a, b, c, d, e) =
     (add32 h0 a, add32 h1 b, add32 h2 c, add32 h3 d, add32 h4 e)"

definition sha1_block :: "sha1_state \<Rightarrow> buffer \<Rightarrow> sha1_state" where
  "sha1_block h blk = sha1_add h (sha1_rounds (sha1_schedule 64 (be32_words blk)) h)"

fun sha1_blocks :: "nat \<Rightarrow> sha1_state \<Rightarrow> buffer \<Rightarrow> sha1_state" where
  "sha1_blocks n h m =
     (if n = 0 then h else sha1_blocks (n - 1) (sha1_block h (take 64 m)) (drop 64 m))"

declare sha1_blocks.simps [simp del]

definition be32_bytes :: "u32 \<Rightarrow> buffer" where
  "be32_bytes w = [of_nat (w div 16777216), of_nat (w div 65536 mod 256),
                   of_nat (w div 256 mod 256), of_nat (w mod 256)]"

definition sha1_init :: sha1_state where
  "sha1_init = (0x67452301, 0xEFCDAB89, 0x98BADCFE, 0x10325476, 0xC3D2E1F0)"

definition sha1 :: "buffer \<Rightarrow> buffer" where
  "sha1 m =
     (case sha1_blocks (length (sha1_pad m) div 64) sha1_init (sha1_pad m) of
        (h0, h1, h2, h3, h4) \<Rightarrow> concat (map be32_bytes [h0, h1, h2, h3, h4]))"

text \<open>\<open>digest('base64')\<close>: base64 with padding (RFC 4648).\<close>

definition base64_alphabet :: string where
  "base64_alphabet = ''ABCDEFGHIJKLMNOPQRSTUVWXYZabcdefghijklmnopqrstuvwxyz0123456789+/''"

definition base64_char :: "nat \<Rightarrow> codeunit" where
  "base64_char n = of_nat (of_char (base64_alphabet ! n))"

fun base64 :: "buffer \<Rightarrow> jsstring" where
  "base64 (a # b # c # r) =
     [base64_char (unat a div 4), base64_char (unat a mod 4 * 16 + unat b div 16),
      base64_char (unat b mod 16 * 4 + unat c div 64), base64_char (unat c mod 64)] @ base64 r"
| "base64 [a, b] =
     [base64_char (unat a div 4), base64_char (unat a mod 4 * 16 + unat b div 16),
      base64_char (unat b mod 16 * 4), 0x3D]"
| "base64 [a] = [base64_char (unat a div 4), base64_char (unat a mod 4 * 16), 0x3D, 0x3D]"
| "base64 [] = []"

section \<open>Module state, sockets and song-info objects\<close>

text \<open>
  Modelled from the spec: the \<open>SongInfo\<close> type, declared by the song-info provider: a record
  with at least the strings \<open>title\<close> and \<open>artist\<close>, the two fields this module reads and
  writes; its other fields are the record's extension. \<open>SongInfo\<close> objects live in a heap
  and are passed by reference.
\<close>

type_synonym sockref = nat
type_synonym objref = nat

record songinfo =
  title :: jsstring
  artist :: jsstring

text \<open>A socket: whether \<open>destroy()\<close> was called, and the argument of each \<open>write\<close> in order.\<close>

record socket =
  destroyed :: bool
  writes :: "buffer list"

record server =
  listening :: bool

text \<open>
  The two registries are objects with integer keys: an association list, whose
  \<open>Object.values\<close> come in ascending key order.
\<close>

record state =
  ready :: bool
  httpServer :: "server option"
  httpSockets :: "(nat \<times> sockref) list"
  wsSockets :: "(nat \<times> sockref) list"
  nextSocketId :: nat
  lastSongInfo :: "objref option"

record 'a world =
  state :: state
  sockets :: "sockref \<Rightarrow> socket"
  heap :: "objref \<Rightarrow> 'a songinfo_scheme"

definition init_state :: state where
  "init_state = \<lparr>ready = False, httpServer = None, httpSockets = [], wsSockets = [],
                  nextSocketId = 0, lastSongInfo = None\<rparr>"

definition Object_values :: "(nat \<times> 'v) list \<Rightarrow> 'v list" where
  "Object_values obj = map snd (sort_key fst obj)"

definition socket_write :: "sockref \<Rightarrow> buffer \<Rightarrow> 'a world \<Rightarrow> 'a world" where
  "socket_write s b w =
     w\<lparr>sockets := (sockets w)(s := (sockets w s)\<lparr>writes := writes (sockets w s) @ [b]\<rparr>)\<rparr>"

definition socket_destroy :: "sockref \<Rightarrow> 'a world \<Rightarrow> 'a world" where
  "socket_destroy s w = w\<lparr>sockets := (sockets w)(s := (sockets w s)\<lparr>destroyed := True\<rparr>)\<rparr>"

section \<open>The handshake\<close>

text \<open>The upgrade request: the \<open>sec-websocket-key\<close> header, \<open>None\<close> when absent.\<close>

record request =
  sec_websocket_key :: "jsstring option"

definition is_js_space :: "codeunit \<Rightarrow> bool" where
  "is_js_space u =
     (u \<in> {0x9, 0xA, 0xB, 0xC, 0xD, 0x20, 0xA0, 0x1680, 0x2028, 0x2029, 0x202F, 0x205F,
            0x3000, 0xFEFF}
      \<or> (0x2000 \<le> unat u \<and> unat u \<le> 0x200A))"

text \<open>\<open>String.prototype.trim\<close>.\<close>

definition String_trim :: "jsstring \<Rightarrow> jsstring" where
  "String_trim s = rev (dropWhile is_js_space (rev (dropWhile is_js_space s)))"

definition magic :: jsstring where
  "magic = js ''258EAFA5-E914-47DA-95CA-C5AB0DC85B11''"

text \<open>
  \<open>req.headers['sec-websocket-key']?.trim() + '258EAFA5-...'\<close>: an absent header gives
  \<open>undefined\<close>, which the concatenation turns into the text \<open>undefined\<close>.
\<close>

definition upgrade_key :: "request \<Rightarrow> jsstring" where
  "upgrade_key req =
     (case sec_websocket_key req of None \<Rightarrow> js ''undefined'' | Some k \<Rightarrow> String_trim k) @ magic"

definition responseKey :: "request \<Rightarrow> jsstring" where
  "responseKey req = base64 (sha1 (utf8_encode (upgrade_key req)))"

text \<open>
  The accept token as the specification words it: the base64 encoding of the SHA-1 digest
  of the UTF-8 bytes of the key followed by the magic constant.
\<close>

definition accept_token_spec :: "jsstring \<Rightarrow> jsstring" where
  "accept_token_spec key = base64 (sha1 (utf8_encode (key @ magic)))"

definition crlf :: jsstring where
  "crlf = [0x0D, 0x0A]"

definition handshake_response :: "jsstring \<Rightarrow> jsstring" where
  "handshake_response k =
     js ''HTTP/1.1 101 Web Socket Protocol Handshake'' @ crlf @
     js ''Upgrade: WebSocket'' @ crlf @
     js ''Connection: Upgrade'' @ crlf @
     js ''Sec-WebSocket-Accept: '' @ k @ crlf @
     crlf"

section \<open>The reply payload\<close>

text \<open>
  \<open>JSON.stringify({songInfo: state.lastSongInfo})\<close>: a property whose value is
  \<open>undefined\<close> is left out. \<open>ser\<close> is \<open>JSON.stringify\<close> on a \<open>SongInfo\<close> object.
\<close>

definition stringify_reply ::
  "('a songinfo_scheme \<Rightarrow> jsstring) \<Rightarrow> (objref \<Rightarrow> 'a songinfo_scheme) \<Rightarrow> objref option \<Rightarrow> jsstring"
where
  "stringify_reply ser h data =
     (case data of
        None \<Rightarrow> [0x7B, 0x7D]
      | Some r \<Rightarrow> [0x7B, 0x22] @ js ''songInfo'' @ [0x22, 0x3A] @ ser (h r) @ [0x7D])"

definition reply_frame :: "('a songinfo_scheme \<Rightarrow> jsstring) \<Rightarrow> 'a world \<Rightarrow> error + buffer" where
  "reply_frame ser w = constructReply (stringify_reply ser (heap w)) (lastSongInfo (state w))"

section \<open>The server's event handlers\<close>

text \<open>
  Each handler runs to completion. A handler that can throw returns the error, if any,
  together with the world as the exception leaves it.
\<close>

text \<open>
  \<open>start\<close> creates the server and calls \<open>listen\<close>: the server is listening as soon as
  \<open>listen\<close> returns. The callback that sets \<open>ready\<close> runs later.
\<close>

definition start :: "'a world \<Rightarrow> 'a world" where
  "start w = w\<lparr>state := (state w)\<lparr>httpServer := Some \<lparr>listening = True\<rparr>\<rparr>\<rparr>"

text \<open>The callback of \<open>listen(23232, ...)\<close>.\<close>

definition on_listening :: "'a world \<Rightarrow> 'a world" where
  "on_listening w = w\<lparr>state := (state w)\<lparr>ready := True\<rparr>\<rparr>"

definition on_connection :: "sockref \<Rightarrow> 'a world \<Rightarrow> 'a world" where
  "on_connection socket w =
     (let sid = nextSocketId (state w)
      in w\<lparr>state := (state w)\<lparr>nextSocketId := sid + 1,
              httpSockets := AList.update sid socket (httpSockets (state w))\<rparr>\<rparr>)"

text \<open>The \<open>close\<close> listener of the plain connection \<open>sid\<close>.\<close>

definition on_close :: "nat \<Rightarrow> 'a world \<Rightarrow> 'a world" where
  "on_close sid w = w\<lparr>state := (state w)\<lparr>httpSockets := AList.delete sid (httpSockets (state w))\<rparr>\<rparr>"

text \<open>The \<open>upgrade\<close> handler, in the order of its statements.\<close>

definition upgrade_register :: "sockref \<Rightarrow> 'a world \<Rightarrow> 'a world" where
  "upgrade_register socket w =
     (let sid = nextSocketId (state w)
      in w\<lparr>state := (state w)\<lparr>nextSocketId := sid + 1,
              wsSockets := AList.update sid socket (wsSockets (state w))\<rparr>\<rparr>)"

definition upgrade_handshake :: "request \<Rightarrow> sockref \<Rightarrow> 'a world \<Rightarrow> 'a world" where
  "upgrade_handshake req socket w =
     socket_write socket (utf8_encode (handshake_response (responseKey req))) w"

definition upgrade_push ::
  "('a songinfo_scheme \<Rightarrow> jsstring) \<Rightarrow> sockref \<Rightarrow> 'a world \<Rightarrow> error option \<times> 'a world"
where
  "upgrade_push ser socket w =
     (case reply_frame ser w of
        Inl e \<Rightarrow> (Some e, w)
      | Inr frame \<Rightarrow> (None, socket_write socket frame w))"

definition on_upgrade ::
  "('a songinfo_scheme \<Rightarrow> jsstring) \<Rightarrow> request \<Rightarrow> sockref \<Rightarrow> 'a world \<Rightarrow> error option \<times> 'a world"
where
  "on_upgrade ser req socket w =
     upgrade_push ser socket (upgrade_handshake req socket (upgrade_register socket w))"

text \<open>
  A handler body as the sequence of its statements. \<open>run_statements\<close> runs them in order
  up to the first exception; \<open>statement_trace\<close> lists the world after each statement that
  ran, so that what has happened by a given point of the body can be read off.
\<close>

type_synonym 'a statement = "'a world \<Rightarrow> error option \<times> 'a world"

fun run_statements :: "'a statement list \<Rightarrow> 'a world \<Rightarrow> error option \<times> 'a world" where
  "run_statements [] w = (None, w)"
| "run_statements (c # cs) w =
     (case c w of (Some e, w') \<Rightarrow> (Some e, w') | (None, w') \<Rightarrow> run_statements cs w')"

fun statement_trace :: "'a statement list \<Rightarrow> 'a world \<Rightarrow> 'a world list" where
  "statement_trace [] w = []"
| "statement_trace (c # cs) w =
     (case c w of (Some e, w') \<Rightarrow> [w'] | (None, w') \<Rightarrow> w' # statement_trace cs w')"

text \<open>
  The statements of the \<open>upgrade\<close> handler in source order: the registry assignment
  (lines 84 and 85), the accept token and the handshake write (lines 88 to 102), the state
  frame write (lines 114 to 118).
\<close>

definition upgrade_statements ::
  "('a songinfo_scheme \<Rightarrow> jsstring) \<Rightarrow> request \<Rightarrow> sockref \<Rightarrow> 'a statement list"
where
  "upgrade_statements ser req socket =
     [\<lambda>w. (None, upgrade_register socket w),
      \<lambda>w. (None, upgrade_handshake req socket w),
      upgrade_push ser socket]"

text \<open>The \<open>end\<close> listener of the upgraded connection \<open>sid\<close>.\<close>

definition on_end :: "nat \<Rightarrow> 'a world \<Rightarrow> 'a world" where
  "on_end sid w = w\<lparr>state := (state w)\<lparr>wsSockets := AList.delete sid (wsSockets (state w))\<rparr>\<rparr>"

definition server_close :: "'a world \<Rightarrow> 'a world" where
  "server_close w =
     w\<lparr>state := (state w)\<lparr>httpServer :=
          map_option (\<lambda>srv. srv\<lparr>listening := False\<rparr>) (httpServer (state w))\<rparr>\<rparr>"

definition stop :: "'a world \<Rightarrow> 'a world" where
  "stop w =
     (case httpServer (state w) of
        None \<Rightarrow> w
      | Some srv \<Rightarrow>
          fold socket_destroy (Object_values (httpSockets (state w)))
            (fold socket_destroy (Object_values (wsSockets (state w))) (server_close w)))"

section \<open>updateActivity\<close>

definition hangulFillerUnicodeCharacter :: jsstring where
  "hangulFillerUnicodeCharacter = [0x3164]"

definition pad_title :: "objref \<Rightarrow> 'a world \<Rightarrow> error option \<times> 'a world" where
  "pad_title r w =
     (if length (title (heap w r)) < 2 then
        (case String_repeat hangulFillerUnicodeCharacter (2 - int (length (title (heap w r)))) of
           Inl e \<Rightarrow> (Some e, w)
         | Inr p \<Rightarrow> (None, w\<lparr>heap := (heap w)(r := (heap w r)\<lparr>title := title (heap w r) @ p\<rparr>)\<rparr>))
      else (None, w))"

definition pad_artist :: "objref \<Rightarrow> 'a world \<Rightarrow> error option \<times> 'a world" where
  "pad_artist r w =
     (if length (artist (heap w r)) < 2 then
        (case String_repeat hangulFillerUnicodeCharacter (2 - int (length (title (heap w r)))) of
           Inl e \<Rightarrow> (Some e, w)
         | Inr p \<Rightarrow> (None, w\<lparr>heap := (heap w)(r := (heap w r)\<lparr>artist := artist (heap w r) @ p\<rparr>)\<rparr>))
      else (None, w))"

text \<open>\<open>Object.values(state.wsSockets).forEach(socket => socket.write(constructReply(...)))\<close>.\<close>

fun broadcast ::
  "('a songinfo_scheme \<Rightarrow> jsstring) \<Rightarrow> sockref list \<Rightarrow> 'a world \<Rightarrow> error option \<times> 'a world"
where
  "broadcast ser [] w = (None, w)"
| "broadcast ser (s # ss) w =
     (case reply_frame ser w of
        Inl e \<Rightarrow> (Some e, w)
      | Inr frame \<Rightarrow> broadcast ser ss (socket_write s frame w))"

definition updateActivity ::
  "('a songinfo_scheme \<Rightarrow> jsstring) \<Rightarrow> objref \<Rightarrow> 'a world \<Rightarrow> error option \<times> 'a world"
where
  "updateActivity ser songInfo w =
     (if length (title (heap w songInfo)) = 0 \<and> length (artist (heap w songInfo)) = 0
      then (None, w)
      else
        let w1 = w\<lparr>state := (state w)\<lparr>lastSongInfo := Some songInfo\<rparr>\<rparr>
        in if \<not> ready (state w1) then (None, w1)
           else
             (case pad_title songInfo w1 of
                (Some e, w2) \<Rightarrow> (Some e, w2)
              | (None, w2) \<Rightarrow>
             (case pad_artist songInfo w2 of
                (Some e, w3) \<Rightarrow> (Some e, w3)
              | (None, w3) \<Rightarrow> broadcast ser (Object_values (wsSockets (state w3))) w3)))"

definition onConfigChange ::
  "('a songinfo_scheme \<Rightarrow> jsstring) \<Rightarrow> 'a world \<Rightarrow> error option \<times> 'a world"
where
  "onConfigChange ser w =
     (case lastSongInfo (state w) of
        None \<Rightarrow> (None, w)
      | Some r \<Rightarrow> updateActivity ser r w)"

section \<open>Example inputs\<close>

text \<open>
  \<open>JSON.stringify\<close> on a \<open>SongInfo\<close> object that has only the fields \<open>title\<close> and
  \<open>artist\<close>, for strings that need no escaping.
\<close>

definition example_ser :: "songinfo \<Rightarrow> jsstring" where
  "example_ser i =
     [0x7B, 0x22] @ js ''title'' @ [0x22, 0x3A, 0x22] @ title i @ [0x22, 0x2C, 0x22] @
     js ''artist'' @ [0x22, 0x3A, 0x22] @ artist i @ [0x22, 0x7D]"

definition fresh_socket :: socket where
  "fresh_socket = \<lparr>destroyed = False, writes = []\<rparr>"

text \<open>A world in this state, with every socket untouched and every reference holding \<open>i\<close>.\<close>

definition example_world :: "state \<Rightarrow> songinfo \<Rightarrow> unit world" where
  "example_world st i = \<lparr>state = st, sockets = (\<lambda>_. fresh_socket), heap = (\<lambda>_. i)\<rparr>"

text \<open>
  The server listens; socket 11 connected (plain entry 0) and upgraded (upgraded entry 1),
  socket 12 connected (plain entry 2).
\<close>

definition listening_state :: state where
  "listening_state =
     \<lparr>ready = True, httpServer = Some \<lparr>listening = True\<rparr>, httpSockets = [(0, 11), (2, 12)],
      wsSockets = [(1, 11)], nextSocketId = 3, lastSongInfo = None\<rparr>"

section \<open>The frame codec writes header and payload\<close>

lemma write_chunks_fits:
  "off + length (concat cs) \<le> length b \<Longrightarrow>
   write_chunks cs off b = take off b @ concat cs @ drop (off + length (concat cs)) b"
proof (induction cs arbitrary: off b)
  case Nil
  then show ?case by simp
next
  case (Cons c cs)
  have fit: "off + length c \<le> length b" using Cons.prems by simp
  let ?b = "take off b @ c @ drop (off + length c) b"
  have len: "length ?b = length b" using fit by simp
  have "write_chunks (c # cs) off b = write_chunks cs (off + length c) ?b"
    using fit by simp
  also have "\<dots> = take (off + length c) ?b @ concat cs @
                    drop (off + length c + length (concat cs)) ?b"
    using Cons.prems len by (intro Cons.IH) simp
  also have "take (off + length c) ?b = take off b @ c"
    using fit by simp
  also have "drop (off + length c + length (concat cs)) ?b =
             drop (off + length (concat (c # cs))) b"
    using fit by (simp add: ac_simps)
  finally show ?case by simp
qed

lemma Buffer_write_exact:
  "length b = off + byteLength s \<Longrightarrow> Buffer_write s off b = Inr (take off b @ utf8_encode s)"
  by (simp add: Buffer_write_def byteLength_def utf8_encode_def write_chunks_fits)


lemma constructReply_short:
  assumes "byteLength (stringify d) < 126"
  shows "constructReply stringify d =
         Inr (0x81 # of_nat (byteLength (stringify d)) # utf8_encode (stringify d))"
proof -
  let ?L = "byteLength (stringify d)"
  have w: "Buffer_write (stringify d) 2 (0x81 # of_nat ?L # Buffer_alloc ?L) =
           Inr ([0x81, of_nat ?L] @ utf8_encode (stringify d))"
    by (subst Buffer_write_exact) (simp_all add: Buffer_alloc_def)
  have h1: "writeUInt8 129 0 (Buffer_alloc (Suc (Suc ?L))) = Inr (0x81 # 0 # Buffer_alloc ?L)"
    by (simp add: writeUInt8_def Buffer_alloc_def)
  have h2: "writeUInt8 ?L (Suc 0) (0x81 # 0 # Buffer_alloc ?L) = Inr (0x81 # of_nat ?L # Buffer_alloc ?L)"
    using assms by (simp add: writeUInt8_def Buffer_alloc_def)
  show ?thesis
    using assms by (simp add: constructReply_def Let_def h1 h2 w)
qed

lemma constructReply_long:
  assumes "126 \<le> byteLength (stringify d)" and "byteLength (stringify d) \<le> 65535"
  shows "constructReply stringify d =
         Inr (0x81 # 126 # of_nat (byteLength (stringify d) div 256)
              # of_nat (byteLength (stringify d) mod 256) # utf8_encode (stringify d))"
proof -
  let ?L = "byteLength (stringify d)"
  let ?hi = "of_nat (?L div 256) :: byte" and ?lo = "of_nat (?L mod 256) :: byte"
  have h1: "writeUInt8 129 0 (Buffer_alloc (Suc (Suc (Suc (Suc ?L))))) =
            Inr (0x81 # 0 # 0 # 0 # Buffer_alloc ?L)"
    by (simp add: writeUInt8_def Buffer_alloc_def)
  have h2: "writeUInt8 126 (Suc 0) (0x81 # 0 # 0 # 0 # Buffer_alloc ?L) =
            Inr (0x81 # 126 # 0 # 0 # Buffer_alloc ?L)"
    by (simp add: writeUInt8_def Buffer_alloc_def)
  have h3: "writeUInt16BE ?L 2 (0x81 # 126 # 0 # 0 # Buffer_alloc ?L) =
            Inr (0x81 # 126 # ?hi # ?lo # Buffer_alloc ?L)"
    using assms(2) by (simp add: writeUInt16BE_def Buffer_alloc_def numeral_2_eq_2)
  have w: "Buffer_write (stringify d) 4 (0x81 # 126 # ?hi # ?lo # Buffer_alloc ?L) =
           Inr ([0x81, 126, ?hi, ?lo] @ utf8_encode (stringify d))"
    by (subst Buffer_write_exact) (simp_all add: Buffer_alloc_def)
  show ?thesis
    using assms by (simp add: constructReply_def Let_def h1 h2 h3 w)
qed

lemma constructReply_too_long:
  assumes "65535 < byteLength (stringify d)"
  shows "constructReply stringify d = Inl RangeError"
proof -
  let ?L = "byteLength (stringify d)"
  have h1: "writeUInt8 129 0 (Buffer_alloc (Suc (Suc (Suc (Suc ?L))))) =
            Inr (0x81 # 0 # 0 # 0 # Buffer_alloc ?L)"
    by (simp add: writeUInt8_def Buffer_alloc_def)
  have h2: "writeUInt8 126 (Suc 0) (0x81 # 0 # 0 # 0 # Buffer_alloc ?L) =
            Inr (0x81 # 126 # 0 # 0 # Buffer_alloc ?L)"
    by (simp add: writeUInt8_def Buffer_alloc_def)
  have h3: "writeUInt16BE ?L 2 (0x81 # 126 # 0 # 0 # Buffer_alloc ?L) = Inl RangeError"
    using assms by (simp add: writeUInt16BE_def)
  show ?thesis
    using assms by (simp add: constructReply_def Let_def h1 h2 h3)
qed

section \<open>UTF-8 decoding inverts the encoding\<close>

lemma unat_byte: "n < 256 \<Longrightarrow> unat (of_nat n :: byte) = n"
  by (simp add: unat_of_nat)

lemma unat_codeunit_bound: "unat (u :: codeunit) < 65536"
  using unsigned_less [of u, where 'a = nat] by simp

lemma utf8_bytes_unat:
  assumes "scalar_value c"
  shows "map unat (utf8_bytes c) =
     (if c < 0x80 then [c]
      else if c < 0x800 then [0xC0 + c div 0x40, 0x80 + c mod 0x40]
      else if c < 0x10000 then
        [0xE0 + c div 0x1000, 0x80 + c div 0x40 mod 0x40, 0x80 + c mod 0x40]
      else
        [0xF0 + c div 0x40000, 0x80 + c div 0x1000 mod 0x40,
         0x80 + c div 0x40 mod 0x40, 0x80 + c mod 0x40])"
proof -
  have lt: "c < 0x110000" using assms by (simp add: scalar_value_def)
  have m: "map unat [of_nat a :: byte] = [a]" if "a < 256" for a
    using that by (simp only: list.map unat_byte)
  have m2: "map unat [of_nat a :: byte, of_nat b] = [a, b]" if "a < 256" "b < 256" for a b
    using that by (simp only: list.map unat_byte)
  have m3: "map unat [of_nat a :: byte, of_nat b, of_nat d] = [a, b, d]"
    if "a < 256" "b < 256" "d < 256" for a b d
    using that by (simp only: list.map unat_byte)
  have m4: "map unat [of_nat a :: byte, of_nat b, of_nat d, of_nat e] = [a, b, d, e]"
    if "a < 256" "b < 256" "d < 256" "e < 256" for a b d e
    using that by (simp only: list.map unat_byte)
  consider (a) "c < 0x80" | (b) "\<not> c < 0x80" "c < 0x800"
    | (c) "\<not> c < 0x80" "\<not> c < 0x800" "c < 0x10000"
    | (d) "\<not> c < 0x80" "\<not> c < 0x800" "\<not> c < 0x10000"
    by linarith
  then show ?thesis
  proof cases
    case a
    have "c < 256" using a by simp
    then show ?thesis
      unfolding utf8_bytes_def using a by (simp only: if_True m)
  next
    case b
    have "0xC0 + c div 0x40 < 256" "0x80 + c mod 0x40 < 256" using b by simp_all
    then show ?thesis
      unfolding utf8_bytes_def using b by (simp only: if_True if_False m2)
  next
    case c
    have "0xE0 + c div 0x1000 < 256" "0x80 + c div 0x40 mod 0x40 < 256" "0x80 + c mod 0x40 < 256"
      using c by simp_all
    then show ?thesis
      unfolding utf8_bytes_def using c by (simp only: if_True if_False m3)
  next
    case d
    have "0xF0 + c div 0x40000 < 256" "0x80 + c div 0x1000 mod 0x40 < 256"
      "0x80 + c div 0x40 mod 0x40 < 256" "0x80 + c mod 0x40 < 256"
      using lt by simp_all
    then show ?thesis
      unfolding utf8_bytes_def using d by (simp only: if_True if_False m4)
  qed
qed

lemma split3:
  "c div 0x1000 * 0x1000 + (c div 0x40 mod 0x40 * 0x40 + c mod 0x40) = (c::nat)"
proof -
  define D where "D = c div 0x40"
  have 1: "D * 0x40 + c mod 0x40 = c" by (simp add: D_def)
  have 2: "D div 0x40 * 0x40 + D mod 0x40 = D" by simp
  have 3: "c div 0x1000 = D div 0x40" by (simp add: D_def div_mult2_eq)
  have "D div 0x40 * 0x1000 + (D mod 0x40 * 0x40 + c mod 0x40) =
        (D div 0x40 * 0x40 + D mod 0x40) * 0x40 + c mod 0x40"
    by (simp only: distrib_right mult.assoc add.assoc)
  also have "\<dots> = c" by (simp only: 2 1)
  finally show ?thesis by (simp only: 3 D_def)
qed

lemma split4:
  "c div 0x40000 * 0x40000 + (c div 0x1000 mod 0x40 * 0x1000 +
     (c div 0x40 mod 0x40 * 0x40 + c mod 0x40)) = (c::nat)"
proof -
  define E where "E = c div 0x1000"
  define R where "R = c div 0x40 mod 0x40 * 0x40 + c mod 0x40"
  have 1: "E * 0x1000 + R = c" using split3 [of c] by (simp only: E_def R_def)
  have 2: "E div 0x40 * 0x40 + E mod 0x40 = E" by simp
  have 3: "c div 0x40000 = E div 0x40" by (simp add: E_def div_mult2_eq)
  have "E div 0x40 * 0x40000 + (E mod 0x40 * 0x1000 + R) =
        (E div 0x40 * 0x40 + E mod 0x40) * 0x1000 + R"
    by (simp only: distrib_right mult.assoc add.assoc)
  also have "\<dots> = c" by (simp only: 2 1)
  finally show ?thesis by (simp only: 3 E_def R_def)
qed

lemma split3_left: "c div 0x1000 * 0x1000 + c div 0x40 mod 0x40 * 0x40 + c mod 0x40 = (c::nat)"
  using split3 [of c] by (simp only: add.assoc)

lemma split4_left:
  "c div 0x40000 * 0x40000 + c div 0x1000 mod 0x40 * 0x1000 + c div 0x40 mod 0x40 * 0x40 +
   c mod 0x40 = (c::nat)"
  using split4 [of c] by (simp only: add.assoc)

lemma decode_one:
  assumes "scalar_value c"
  shows "utf8_decode_points (map unat (utf8_bytes c) @ bs) =
         map_option ((#) c) (utf8_decode_points bs)"
proof -
  have lt: "c < 0x110000" and ns: "\<not> (0xD800 \<le> c \<and> c < 0xE000)"
    using assms by (simp_all add: scalar_value_def)
  consider (a) "c < 0x80" | (b) "\<not> c < 0x80" "c < 0x800"
    | (c) "\<not> c < 0x80" "\<not> c < 0x800" "c < 0x10000"
    | (d) "\<not> c < 0x80" "\<not> c < 0x800" "\<not> c < 0x10000"
    by linarith
  then show ?thesis
  proof cases
    case a
    then show ?thesis by (simp add: utf8_bytes_unat [OF assms])
  next
    case b
    have v: "c div 0x40 * 0x40 + c mod 0x40 = c" by simp
    have "0x80 div 0x40 \<le> c div (0x40::nat)" using b by (intro div_le_mono) simp
    then have r: "2 \<le> c div 0x40" by simp
    have r2: "c div 0x40 < 32" using b by simp
    show ?thesis
      using b v r r2 by (simp add: utf8_bytes_unat [OF assms] is_cont_def)
  next
    case c
    note v = split3_left [of c]
    have r: "c div 0x1000 < 16" using c by simp
    show ?thesis
      using c r ns by (simp add: utf8_bytes_unat [OF assms] is_cont_def Let_def v)
  next
    case d
    note v = split4_left [of c]
    have r: "c div 0x40000 < 5" using lt by simp
    show ?thesis
      using d r lt by (simp add: utf8_bytes_unat [OF assms] is_cont_def Let_def v)
  qed
qed

lemma decode_all:
  "list_all scalar_value cs \<Longrightarrow>
   utf8_decode_points (map unat (concat (map utf8_bytes cs))) = Some cs"
  by (induction cs) (simp_all add: decode_one)

lemma code_points_scalar: "list_all scalar_value (code_points s)"
proof (induction s rule: code_points.induct)
  case 1
  then show ?case by simp
next
  case (2 u)
  then show ?case
    using unat_codeunit_bound [of u]
    by (auto simp add: scalar_value_def is_high_surrogate_def is_low_surrogate_def)
next
  case (3 u v r)
  have "scalar_value (0x10000 + (unat u - 0xD800) * 0x400 + (unat v - 0xDC00))"
    if "is_high_surrogate u" "is_low_surrogate v"
  proof -
    have a: "unat u - 0xD800 \<le> 0x3FF" and b: "unat v - 0xDC00 \<le> 0x3FF"
      using that by (auto simp add: is_high_surrogate_def is_low_surrogate_def)
    have "(unat u - 0xD800) * 0x400 \<le> 0x3FF * 0x400"
      using a by (rule mult_le_mono1)
    then have "0x10000 + (unat u - 0xD800) * 0x400 + (unat v - 0xDC00) < 0x110000"
      using b by simp
    then show ?thesis by (simp add: scalar_value_def)
  qed
  moreover have "scalar_value (if is_high_surrogate u \<or> is_low_surrogate u then 0xFFFD else unat u)"
    using unat_codeunit_bound [of u]
    by (auto simp add: scalar_value_def is_high_surrogate_def is_low_surrogate_def)
  ultimately show ?case using 3 by simp
qed

lemma units_of_points:
  "well_formed s \<Longrightarrow> concat (map utf16_units (code_points s)) = s"
proof (induction s rule: code_points.induct)
  case 1
  then show ?case by simp
next
  case (2 u)
  then show ?case
    using unat_codeunit_bound [of u] by (simp add: utf16_units_def)
next
  case (3 u v r)
  show ?case
  proof (cases "is_high_surrogate u")
    case True
    then have lo: "is_low_surrogate v" and wf: "well_formed r"
      using "3.prems" by simp_all
    let ?c = "0x10000 + (unat u - 0xD800) * 0x400 + (unat v - 0xDC00)"
    have small: "unat v - 0xDC00 < 0x400"
      using lo by (auto simp add: is_low_surrogate_def)
    have off: "?c - 0x10000 = (unat u - 0xD800) * 0x400 + (unat v - 0xDC00)"
      by simp
    have hi: "(?c - 0x10000) div 0x400 = unat u - 0xD800"
      unfolding off using small by simp
    have lw: "(?c - 0x10000) mod 0x400 = unat v - 0xDC00"
      unfolding off using small by simp
    have u: "0xD800 + (unat u - 0xD800) = unat u"
      using True by (simp add: is_high_surrogate_def)
    have v: "0xDC00 + (unat v - 0xDC00) = unat v"
      using lo by (simp add: is_low_surrogate_def)
    have "utf16_units ?c = [u, v]"
      unfolding utf16_units_def hi lw u v by simp
    then show ?thesis
      using True lo wf "3.IH"(1) by simp
  next
    case False
    then have nl: "\<not> is_low_surrogate u" and wf: "well_formed (v # r)"
      using "3.prems" by simp_all
    have "utf16_units (unat u) = [u]"
      using unat_codeunit_bound [of u] by (simp add: utf16_units_def)
    then show ?thesis
      using False nl wf "3.IH"(2) by simp
  qed
qed

lemma utf8_roundtrip: "well_formed s \<Longrightarrow> utf8_decode (utf8_encode s) = Some s"
  by (simp add: utf8_decode_def utf8_encode_def utf8_chunks_def decode_all code_points_scalar
      units_of_points)

section \<open>The layout of a frame\<close>

lemma code_points_ascii: "list_all (\<lambda>u. unat u < 0x80) s \<Longrightarrow> code_points s = map unat s"
  by (induction s rule: code_points.induct)
     (simp_all add: is_high_surrogate_def is_low_surrogate_def)

lemma utf8_encode_ascii:
  "list_all (\<lambda>u. unat u < 0x80) s \<Longrightarrow> utf8_encode s = map (\<lambda>u. of_nat (unat u)) s"
proof -
  assume a: "list_all (\<lambda>u. unat u < 0x80) s"
  have "concat (map utf8_bytes (map unat s)) = map (\<lambda>u. of_nat (unat u)) s"
    using a by (induction s) (simp_all add: utf8_bytes_def)
  then show ?thesis
    by (simp add: utf8_encode_def utf8_chunks_def code_points_ascii [OF a])
qed

lemma byteLength_ascii: "list_all (\<lambda>u. unat u < 0x80) s \<Longrightarrow> byteLength s = length s"
  by (simp add: byteLength_def utf8_encode_ascii)

lemma well_formed_ascii: "list_all (\<lambda>u. unat u < 0x80) s \<Longrightarrow> well_formed s"
  by (induction s rule: well_formed.induct)
     (simp_all add: is_high_surrogate_def is_low_surrogate_def)

text \<open>
  C4. For a value whose JSON text has UTF-8 byte length \<open>L\<close>: if \<open>L < 126\<close>,
  \<open>constructReply\<close> returns a buffer of \<open>2 + L\<close> bytes whose byte 0 is \<open>0x81\<close>, whose
  byte 1 is \<open>L\<close> and whose bytes from 2 on decode as UTF-8 to the JSON text; if
  \<open>126 \<le> L \<le> 65535\<close>, it returns a buffer of \<open>4 + L\<close> bytes whose byte 0 is \<open>0x81\<close>,
  whose byte 1 is 126, whose bytes 2 and 3 hold \<open>L\<close> big-endian and whose bytes from 4 on
  decode to the JSON text. The JSON text has no lone surrogate, as \<open>JSON.stringify\<close>
  guarantees.
\<close>

theorem constructReply_frame_layout:
  assumes "well_formed (stringify d)"
  shows "(byteLength (stringify d) < 126 \<longrightarrow>
           (\<exists>b. constructReply stringify d = Inr b \<and> length b = 2 + byteLength (stringify d) \<and>
                b ! 0 = 0x81 \<and> unat (b ! 1) = byteLength (stringify d) \<and>
                utf8_decode (drop 2 b) = Some (stringify d))) \<and>
         (126 \<le> byteLength (stringify d) \<and> byteLength (stringify d) \<le> 65535 \<longrightarrow>
           (\<exists>b. constructReply stringify d = Inr b \<and> length b = 4 + byteLength (stringify d) \<and>
                b ! 0 = 0x81 \<and> b ! 1 = 126 \<and>
                unat (b ! 2) * 256 + unat (b ! 3) = byteLength (stringify d) \<and>
                utf8_decode (drop 4 b) = Some (stringify d)))"
proof (intro conjI impI)
  let ?L = "byteLength (stringify d)"
  assume short: "?L < 126"
  have "unat (of_nat ?L :: byte) = ?L"
    using short by (intro unat_byte) simp
  then show "\<exists>b. constructReply stringify d = Inr b \<and> length b = 2 + ?L \<and>
                b ! 0 = 0x81 \<and> unat (b ! 1) = ?L \<and> utf8_decode (drop 2 b) = Some (stringify d)"
    using short assms
    by (simp add: constructReply_short utf8_roundtrip byteLength_def)
next
  let ?L = "byteLength (stringify d)"
  assume long: "126 \<le> ?L \<and> ?L \<le> 65535"
  have "?L < 65536" using long by simp
  then have "?L div 256 < 256" by simp
  then have hi: "unat (of_nat (?L div 256) :: byte) = ?L div 256"
    by (rule unat_byte)
  have lo: "unat (of_nat (?L mod 256) :: byte) = ?L mod 256"
    by (intro unat_byte) simp
  have "constructReply stringify d =
        Inr (0x81 # 126 # of_nat (?L div 256) # of_nat (?L mod 256) # utf8_encode (stringify d))"
    using long by (intro constructReply_long) simp_all
  then show "\<exists>b. constructReply stringify d = Inr b \<and> length b = 4 + ?L \<and>
                b ! 0 = 0x81 \<and> b ! 1 = 126 \<and> unat (b ! 2) * 256 + unat (b ! 3) = ?L \<and>
                utf8_decode (drop 4 b) = Some (stringify d)"
    using assms by (simp add: hi lo utf8_roundtrip byteLength_def [symmetric] numeral_3_eq_3 numeral_2_eq_2)
qed

theorem constructReply_frame_layout_witness:
  "well_formed (js ''{}'') \<and> byteLength (js ''{}'') < 126 \<and>
   (\<exists>b. constructReply (\<lambda>_. js ''{}'') () = Inr b \<and> length b = 2 + byteLength (js ''{}'') \<and>
        b ! 0 = 0x81 \<and> unat (b ! 1) = byteLength (js ''{}'') \<and>
        utf8_decode (drop 2 b) = Some (js ''{}'')) \<and>
   well_formed (replicate 300 0x61) \<and> 126 \<le> byteLength (replicate 300 0x61) \<and>
   byteLength (replicate 300 0x61) \<le> 65535 \<and>
   (\<exists>b. constructReply (\<lambda>_. replicate 300 0x61) () = Inr b \<and>
        length b = 4 + byteLength (replicate 300 0x61) \<and> b ! 0 = 0x81 \<and> b ! 1 = 126 \<and>
        unat (b ! 2) * 256 + unat (b ! 3) = byteLength (replicate 300 0x61) \<and>
        utf8_decode (drop 4 b) = Some (replicate 300 0x61))"
proof -
  have a1: "list_all (\<lambda>u. unat u < 0x80) (js ''{}'')"
    by (simp add: js_def)
  have a2: "list_all (\<lambda>u. unat u < 0x80) (replicate 300 (0x61 :: codeunit))"
    by (simp add: list_all_iff)
  have w1: "well_formed (js ''{}'')" and l1: "byteLength (js ''{}'') = 2"
    using well_formed_ascii [OF a1] byteLength_ascii [OF a1] by (simp_all add: js_def)
  have w2: "well_formed (replicate 300 (0x61 :: codeunit))"
    and l2: "byteLength (replicate 300 (0x61 :: codeunit)) = 300"
    using well_formed_ascii [OF a2] byteLength_ascii [OF a2] by simp_all
  show ?thesis
    using constructReply_frame_layout [of "\<lambda>_. js ''{}''" "()"]
      constructReply_frame_layout [of "\<lambda>_. replicate 300 0x61" "()"]
    by (simp add: w1 l1 w2 l2)
qed

section \<open>Sockets, broadcast and padding\<close>

lemma socket_write_state [simp]: "state (socket_write s b w) = state w"
  and socket_write_heap [simp]: "heap (socket_write s b w) = heap w"
  and socket_write_sockets:
    "sockets (socket_write s b w) s' =
       (if s' = s then (sockets w s)\<lparr>writes := writes (sockets w s) @ [b]\<rparr> else sockets w s')"
  by (simp_all add: socket_write_def)

lemma reply_frame_socket_write [simp]: "reply_frame ser (socket_write s b w) = reply_frame ser w"
  by (simp add: reply_frame_def)

lemma broadcast_frames:
  "reply_frame ser w = Inr f \<Longrightarrow> broadcast ser ss w = (None, fold (\<lambda>s. socket_write s f) ss w)"
  by (induction ss arbitrary: w) simp_all

lemma broadcast_throws:
  "reply_frame ser w = Inl e \<Longrightarrow> broadcast ser ss w = (if ss = [] then None else Some e, w)"
  by (cases ss) simp_all

lemma fold_socket_write_state [simp]: "state (fold (\<lambda>s. socket_write s f) ss w) = state w"
  and fold_socket_write_heap [simp]: "heap (fold (\<lambda>s. socket_write s f) ss w) = heap w"
  by (induction ss arbitrary: w) simp_all

lemma fold_socket_write_sockets:
  "sockets (fold (\<lambda>s. socket_write s f) ss w) s =
     (sockets w s)\<lparr>writes := writes (sockets w s) @ replicate (count_list ss s) f\<rparr>"
  by (induction ss arbitrary: w)
     (simp_all add: socket_write_sockets replicate_append_same)

lemma pad_title_eq:
  "pad_title r w =
     (None, if length (title (heap w r)) < 2
            then w\<lparr>heap := (heap w)(r := (heap w r)\<lparr>title :=
                   title (heap w r) @ replicate (2 - length (title (heap w r))) 0x3164\<rparr>)\<rparr>
            else w)"
proof -
  have "concat (replicate n hangulFillerUnicodeCharacter) = replicate n 0x3164" for n
    by (induction n) (simp_all add: hangulFillerUnicodeCharacter_def)
  then show ?thesis
    by (simp add: pad_title_def String_repeat_def nat_diff_distrib')
qed

lemmas update_eval =
  updateActivity_def Let_def pad_title_def pad_artist_def String_repeat_def
  hangulFillerUnicodeCharacter_def example_world_def listening_state_def Object_values_def
  reply_frame_def constructReply_short stringify_reply_def example_ser_def js_def
  byteLength_def utf8_encode_def utf8_chunks_def utf8_bytes_def is_high_surrogate_def
  is_low_surrogate_def socket_write_def fresh_socket_def

lemma update_A_B:
  "updateActivity example_ser 0
     (example_world listening_state \<lparr>title = js ''A'', artist = js ''B''\<rparr>) =
   (None,
    \<lparr>state = listening_state\<lparr>lastSongInfo := Some 0\<rparr>,
     sockets = (\<lambda>_. fresh_socket)(11 := \<lparr>destroyed = False, writes =
       [[0x81, 0x2A, 0x7B, 0x22, 0x73, 0x6F, 0x6E, 0x67, 0x49, 0x6E, 0x66, 0x6F, 0x22, 0x3A,
          0x7B, 0x22, 0x74, 0x69, 0x74, 0x6C, 0x65, 0x22, 0x3A, 0x22, 0x41, 0xE3, 0x85, 0xA4,
          0x22, 0x2C, 0x22, 0x61, 0x72, 0x74, 0x69, 0x73, 0x74, 0x22, 0x3A, 0x22, 0x42, 0x22,
          0x7D, 0x7D]]\<rparr>),
     heap = (\<lambda>_. \<lparr>title = js ''A'', artist = js ''B''\<rparr>)
              (0 := \<lparr>title = [0x41, 0x3164], artist = [0x42]\<rparr>)\<rparr>)"
  by (simp add: update_eval)

lemma update_AB_C:
  "updateActivity example_ser 0
     (example_world listening_state \<lparr>title = js ''AB'', artist = js ''C''\<rparr>) =
   (None,
    \<lparr>state = listening_state\<lparr>lastSongInfo := Some 0\<rparr>,
     sockets = (\<lambda>_. fresh_socket)(11 := \<lparr>destroyed = False, writes =
       [[0x81, 0x28, 0x7B, 0x22, 0x73, 0x6F, 0x6E, 0x67, 0x49, 0x6E, 0x66, 0x6F, 0x22, 0x3A,
          0x7B, 0x22, 0x74, 0x69, 0x74, 0x6C, 0x65, 0x22, 0x3A, 0x22, 0x41, 0x42, 0x22, 0x2C,
          0x22, 0x61, 0x72, 0x74, 0x69, 0x73, 0x74, 0x22, 0x3A, 0x22, 0x43, 0x22, 0x7D, 0x7D]]\<rparr>),
     heap = (\<lambda>_. \<lparr>title = js ''AB'', artist = js ''C''\<rparr>)
              (0 := \<lparr>title = [0x41, 0x42], artist = [0x43]\<rparr>)\<rparr>)"
  by (simp add: update_eval)

lemma update_A_empty:
  "updateActivity example_ser 0
     (example_world listening_state \<lparr>title = js ''A'', artist = []\<rparr>) =
   (None,
    \<lparr>state = listening_state\<lparr>lastSongInfo := Some 0\<rparr>,
     sockets = (\<lambda>_. fresh_socket)(11 := \<lparr>destroyed = False, writes =
       [[0x81, 0x29, 0x7B, 0x22, 0x73, 0x6F, 0x6E, 0x67, 0x49, 0x6E, 0x66, 0x6F, 0x22, 0x3A,
          0x7B, 0x22, 0x74, 0x69, 0x74, 0x6C, 0x65, 0x22, 0x3A, 0x22, 0x41, 0xE3, 0x85, 0xA4,
          0x22, 0x2C, 0x22, 0x61, 0x72, 0x74, 0x69, 0x73, 0x74, 0x22, 0x3A, 0x22, 0x22, 0x7D,
          0x7D]]\<rparr>),
     heap = (\<lambda>_. \<lparr>title = js ''A'', artist = []\<rparr>)
              (0 := \<lparr>title = [0x41, 0x3164], artist = []\<rparr>)\<rparr>)"
  by (simp add: update_eval)

text \<open>A long title with a short artist: the pad count is negative and \<open>repeat\<close> throws.\<close>

lemma update_Song_empty:
  "updateActivity example_ser 0
     (example_world listening_state \<lparr>title = js ''Song'', artist = []\<rparr>) =
   (Some RangeError,
    \<lparr>state = listening_state\<lparr>lastSongInfo := Some 0\<rparr>,
     sockets = (\<lambda>_. fresh_socket),
     heap = (\<lambda>_. \<lparr>title = js ''Song'', artist = []\<rparr>)\<rparr>)"
  by (simp add: update_eval)


lemma pad_artist_frame:
  "state (snd (pad_artist r w)) = state w" "sockets (snd (pad_artist r w)) = sockets w"
  "title (heap (snd (pad_artist r w)) r') = title (heap w r')"
  "songinfo.more (heap (snd (pad_artist r w)) r') = songinfo.more (heap w r')"
  "r' \<noteq> r \<Longrightarrow> heap (snd (pad_artist r w)) r' = heap w r'"
  by (simp_all add: pad_artist_def String_repeat_def)

lemma broadcast_frame:
  "state (snd (broadcast ser ss w)) = state w" "heap (snd (broadcast ser ss w)) = heap w"
  by (induction ss arbitrary: w) (simp_all split: sum.splits)

lemma updateActivity_ready_frame:
  assumes "ready (state w)" and "\<not> (title (heap w r) = [] \<and> artist (heap w r) = [])"
  shows "state (snd (updateActivity ser r w)) = (state w)\<lparr>lastSongInfo := Some r\<rparr>"
    and "title (heap (snd (updateActivity ser r w)) r) =
           (if length (title (heap w r)) < 2
            then title (heap w r) @ replicate (2 - length (title (heap w r))) 0x3164
            else title (heap w r))"
    and "songinfo.more (heap (snd (updateActivity ser r w)) r) = songinfo.more (heap w r)"
    and "r' \<noteq> r \<Longrightarrow> heap (snd (updateActivity ser r w)) r' = heap w r'"
proof -
  let ?w1 = "w\<lparr>state := (state w)\<lparr>lastSongInfo := Some r\<rparr>\<rparr>"
  let ?w2 = "snd (pad_title r ?w1)"
  let ?w3 = "snd (pad_artist r ?w2)"
  have u: "snd (updateActivity ser r w) =
           (case fst (pad_artist r ?w2) of
              Some e \<Rightarrow> ?w3
            | None \<Rightarrow> snd (broadcast ser (Object_values (wsSockets (state ?w3))) ?w3))"
    using assms
    by (auto simp add: updateActivity_def Let_def pad_title_eq split: prod.splits option.splits)
  have w2: "state ?w2 = (state w)\<lparr>lastSongInfo := Some r\<rparr>"
    "title (heap ?w2 r) =
       (if length (title (heap w r)) < 2
        then title (heap w r) @ replicate (2 - length (title (heap w r))) 0x3164
        else title (heap w r))"
    "songinfo.more (heap ?w2 r) = songinfo.more (heap w r)"
    "r' \<noteq> r \<Longrightarrow> heap ?w2 r' = heap w r'"
    by (simp_all add: pad_title_eq)
  show "state (snd (updateActivity ser r w)) = (state w)\<lparr>lastSongInfo := Some r\<rparr>"
    unfolding u by (simp add: pad_artist_frame broadcast_frame w2 split: option.splits)
  show "title (heap (snd (updateActivity ser r w)) r) =
           (if length (title (heap w r)) < 2
            then title (heap w r) @ replicate (2 - length (title (heap w r))) 0x3164
            else title (heap w r))"
    unfolding u by (simp add: pad_artist_frame broadcast_frame w2 split: option.splits)
  show "songinfo.more (heap (snd (updateActivity ser r w)) r) = songinfo.more (heap w r)"
    unfolding u by (simp add: pad_artist_frame broadcast_frame w2 split: option.splits)
  show "r' \<noteq> r \<Longrightarrow> heap (snd (updateActivity ser r w)) r' = heap w r'"
    unfolding u by (simp add: pad_artist_frame broadcast_frame w2 split: option.splits)
qed


subsection \<open>Rejection and storage\<close>

text \<open>
  C8. When both \<open>title\<close> and \<open>artist\<close> are the empty string, \<open>updateActivity\<close> is a
  complete no-op: it throws nothing and leaves the whole world as it was, so no frame is
  written to any socket and \<open>lastSongInfo\<close> is unchanged.
\<close>

theorem updateActivity_empty_noop:
  assumes "title (heap w r) = []" and "artist (heap w r) = []"
  shows "updateActivity ser r w = (None, w)"
  using assms by (simp add: updateActivity_def)

theorem updateActivity_empty_noop_witness:
  "title (heap (example_world listening_state \<lparr>title = [], artist = []\<rparr>) 0) = [] \<and>
   artist (heap (example_world listening_state \<lparr>title = [], artist = []\<rparr>) 0) = [] \<and>
   updateActivity example_ser 0 (example_world listening_state \<lparr>title = [], artist = []\<rparr>)
     = (None, example_world listening_state \<lparr>title = [], artist = []\<rparr>)"
  using updateActivity_empty_noop
    [of "example_world listening_state \<lparr>title = [], artist = []\<rparr>" 0 example_ser]
  by (simp add: example_world_def)

text \<open>
  C7. When \<open>title\<close> and \<open>artist\<close> are not both empty, \<open>updateActivity\<close> stores the
  reference in \<open>lastSongInfo\<close>, whatever \<open>ready\<close> is and whether or not the call later
  throws. When \<open>ready\<close> is false it stops there: nothing else in the world changes, so no
  frame is written to any socket.
\<close>

theorem updateActivity_stores_before_ready_test:
  assumes "\<not> (title (heap w r) = [] \<and> artist (heap w r) = [])"
  shows "lastSongInfo (state (snd (updateActivity ser r w))) = Some r \<and>
         (\<not> ready (state w) \<longrightarrow>
            updateActivity ser r w = (None, w\<lparr>state := (state w)\<lparr>lastSongInfo := Some r\<rparr>\<rparr>))"
proof (cases "ready (state w)")
  case True
  then show ?thesis
    using updateActivity_ready_frame(1) [OF True assms, of ser] by simp
next
  case False
  then show ?thesis
    using assms by (auto simp add: updateActivity_def Let_def)
qed

theorem updateActivity_stores_before_ready_test_witness:
  "\<not> (title (heap (example_world init_state \<lparr>title = js ''A'', artist = []\<rparr>) 0) = [] \<and>
      artist (heap (example_world init_state \<lparr>title = js ''A'', artist = []\<rparr>) 0) = []) \<and>
   \<not> ready (state (example_world init_state \<lparr>title = js ''A'', artist = []\<rparr>)) \<and>
   lastSongInfo (state (snd (updateActivity example_ser 0
      (example_world init_state \<lparr>title = js ''A'', artist = []\<rparr>)))) = Some 0 \<and>
   updateActivity example_ser 0 (example_world init_state \<lparr>title = js ''A'', artist = []\<rparr>)
     = (None, (example_world init_state \<lparr>title = js ''A'', artist = []\<rparr>)
               \<lparr>state := init_state\<lparr>lastSongInfo := Some 0\<rparr>\<rparr>)"
  using updateActivity_stores_before_ready_test
    [of "example_world init_state \<lparr>title = js ''A'', artist = []\<rparr>" 0 example_ser]
  by (simp add: example_world_def init_state_def js_def)

subsection \<open>Padding\<close>

text \<open>
  C1. With the server ready, \<open>updateActivity\<close> on title \<open>A\<close> and artist \<open>B\<close> pads the title
  to \<open>A\<close> followed by U+3164, and leaves the artist \<open>B\<close> at length 1: the pad count of the
  artist is \<open>2 - title.length\<close>, read after the title was padded. On title \<open>AB\<close> and
  artist \<open>C\<close> the title is unchanged and the artist stays \<open>C\<close>.
\<close>

theorem updateActivity_short_artist_unpadded:
  "title (heap (snd (updateActivity example_ser 0
      (example_world listening_state \<lparr>title = js ''A'', artist = js ''B''\<rparr>))) 0)
     = [0x41, 0x3164] \<and>
   artist (heap (snd (updateActivity example_ser 0
      (example_world listening_state \<lparr>title = js ''A'', artist = js ''B''\<rparr>))) 0)
     = [0x42] \<and>
   writes (sockets (snd (updateActivity example_ser 0
      (example_world listening_state \<lparr>title = js ''A'', artist = js ''B''\<rparr>))) 11)
     = [0x81 # 0x2A # utf8_encode ([0x7B, 0x22] @ js ''songInfo'' @ [0x22, 0x3A] @
          example_ser \<lparr>title = [0x41, 0x3164], artist = [0x42]\<rparr> @ [0x7D])] \<and>
   title (heap (snd (updateActivity example_ser 0
      (example_world listening_state \<lparr>title = js ''AB'', artist = js ''C''\<rparr>))) 0)
     = [0x41, 0x42] \<and>
   artist (heap (snd (updateActivity example_ser 0
      (example_world listening_state \<lparr>title = js ''AB'', artist = js ''C''\<rparr>))) 0)
     = [0x43] \<and>
   writes (sockets (snd (updateActivity example_ser 0
      (example_world listening_state \<lparr>title = js ''AB'', artist = js ''C''\<rparr>))) 11)
     = [0x81 # 0x28 # utf8_encode ([0x7B, 0x22] @ js ''songInfo'' @ [0x22, 0x3A] @
          example_ser \<lparr>title = [0x41, 0x42], artist = [0x43]\<rparr> @ [0x7D])]"
  by (simp only: update_A_B update_AB_C)
     (simp add: example_ser_def js_def utf8_encode_def utf8_chunks_def utf8_bytes_def
        is_high_surrogate_def is_low_surrogate_def)

text \<open>
  C10. The claim expects a short artist to be overwritten, in the object the caller passed,
  with the padded string. With the server ready, on title \<open>A\<close> and an empty artist,
  \<open>updateActivity\<close> stores the reference passed and overwrites the title of that object
  with \<open>A\<close> followed by U+3164, but the artist of that object stays empty: the pad count
  of the artist is \<open>2 - title.length\<close>, read after the title was padded, so no reader of
  the object ever sees a filler glyph in the artist.
\<close>

theorem updateActivity_artist_without_filler:
  "lastSongInfo (state (snd (updateActivity example_ser 0
      (example_world listening_state \<lparr>title = js ''A'', artist = []\<rparr>)))) = Some 0 \<and>
   title (heap (snd (updateActivity example_ser 0
      (example_world listening_state \<lparr>title = js ''A'', artist = []\<rparr>))) 0)
     = [0x41, 0x3164] \<and>
   artist (heap (snd (updateActivity example_ser 0
      (example_world listening_state \<lparr>title = js ''A'', artist = []\<rparr>))) 0)
     = []"
  by (simp add: update_A_empty)

text \<open>
  What does hold of the object passed: when the server is ready and title and artist are
  not both empty, \<open>lastSongInfo\<close> is the very reference passed, a title shorter than 2 is
  overwritten in that object with the title right-padded with U+3164 to length 2, and the
  fields of the extension and all other objects are untouched, whether the call returns
  or throws.
\<close>

lemma updateActivity_mutates_title_in_place:
  assumes "ready (state w)" and "\<not> (title (heap w r) = [] \<and> artist (heap w r) = [])"
  shows "lastSongInfo (state (snd (updateActivity ser r w))) = Some r \<and>
         title (heap (snd (updateActivity ser r w)) r) =
           (if length (title (heap w r)) < 2
            then title (heap w r) @ replicate (2 - length (title (heap w r))) 0x3164
            else title (heap w r)) \<and>
         songinfo.more (heap (snd (updateActivity ser r w)) r) = songinfo.more (heap w r) \<and>
         (\<forall>r'. r' \<noteq> r \<longrightarrow> heap (snd (updateActivity ser r w)) r' = heap w r')"
  using updateActivity_ready_frame [OF assms] by simp

section \<open>stop\<close>

lemma fold_socket_destroy_state [simp]: "state (fold socket_destroy ss w) = state w"
  and fold_socket_destroy_heap [simp]: "heap (fold socket_destroy ss w) = heap w"
  by (induction ss arbitrary: w) (simp_all add: socket_destroy_def)

lemma fold_socket_destroy_sockets:
  "sockets (fold socket_destroy ss w) s =
     (if s \<in> set ss then (sockets w s)\<lparr>destroyed := True\<rparr> else sockets w s)"
  by (induction ss arbitrary: w) (auto simp add: socket_destroy_def)

lemma set_Object_values [simp]: "set (Object_values obj) = snd ` set obj"
  by (simp add: Object_values_def)

lemma stop_without_server: "httpServer (state w) = None \<Longrightarrow> stop w = w"
  by (simp add: stop_def)

lemma stop_with_server:
  assumes "httpServer (state w) = Some srv"
  shows "state (stop w) = (state w)\<lparr>httpServer := Some (srv\<lparr>listening := False\<rparr>)\<rparr>"
    and "heap (stop w) = heap w"
    and "sockets (stop w) s =
           (if s \<in> snd ` set (wsSockets (state w)) \<union> snd ` set (httpSockets (state w))
            then (sockets w s)\<lparr>destroyed := True\<rparr> else sockets w s)"
  using assms by (auto simp add: stop_def server_close_def fold_socket_destroy_sockets)

lemma stop_idempotent: "stop (stop w) = stop w"
proof (cases "httpServer (state w)")
  case None
  then show ?thesis by (simp add: stop_without_server)
next
  case (Some srv)
  let ?w = "stop w"
  have srv': "httpServer (state ?w) = Some (srv\<lparr>listening := False\<rparr>)"
    by (simp add: stop_with_server(1) [OF Some])
  have "state (stop ?w) = state ?w"
    by (simp add: stop_with_server(1) [OF srv'] stop_with_server(1) [OF Some])
  moreover have "heap (stop ?w) = heap ?w"
    by (simp add: stop_with_server(2) [OF srv'])
  moreover have "sockets (stop ?w) = sockets ?w"
    by (rule ext)
       (simp add: stop_with_server(3) [OF srv'] stop_with_server(3) [OF Some]
          stop_with_server(1) [OF Some])
  moreover have "world.more (stop ?w) = world.more ?w"
    by simp
  ultimately show ?thesis
    by (auto intro: world.equality)
qed

text \<open>
  C5, as stated, fails: after \<open>stop\<close> on a listening server with open connections,
  \<open>ready\<close> is still true and both registries still hold their entries; once the
  \<open>close\<close> listeners of the destroyed sockets have run, \<open>ready\<close> is still true and the
  upgraded registry still holds its entry.
\<close>

theorem stop_keeps_registries_and_ready:
  "ready (state (stop (example_world listening_state \<lparr>title = js ''A'', artist = js ''B''\<rparr>))) \<and>
   wsSockets (state (stop (example_world listening_state \<lparr>title = js ''A'', artist = js ''B''\<rparr>)))
     = [(1, 11)] \<and>
   httpSockets (state (stop (example_world listening_state \<lparr>title = js ''A'', artist = js ''B''\<rparr>)))
     = [(0, 11), (2, 12)] \<and>
   ready (state (on_close 2 (on_close 0
     (stop (example_world listening_state \<lparr>title = js ''A'', artist = js ''B''\<rparr>))))) \<and>
   wsSockets (state (on_close 2 (on_close 0
     (stop (example_world listening_state \<lparr>title = js ''A'', artist = js ''B''\<rparr>)))))
     = [(1, 11)]"
  by (simp add: stop_with_server(1) [where srv = "\<lparr>listening = True\<rparr>"] example_world_def
      listening_state_def on_close_def)

text \<open>
  C5, amended. \<open>stop\<close> is idempotent and throws nothing; without a server it changes
  nothing; with a server it closes it and destroys every stream registered in either
  registry. It leaves \<open>ready\<close> and both registries as they were.
\<close>

theorem stop_closes_and_destroys:
  "stop (stop w) = stop w \<and>
   (httpServer (state w) = None \<longrightarrow> stop w = w) \<and>
   (\<forall>srv. httpServer (state w) = Some srv \<longrightarrow>
      httpServer (state (stop w)) = Some (srv\<lparr>listening := False\<rparr>) \<and>
      (\<forall>s \<in> snd ` set (wsSockets (state w)) \<union> snd ` set (httpSockets (state w)).
         destroyed (sockets (stop w) s))) \<and>
   ready (state (stop w)) = ready (state w) \<and>
   wsSockets (state (stop w)) = wsSockets (state w) \<and>
   httpSockets (state (stop w)) = httpSockets (state w)"
proof (cases "httpServer (state w)")
  case None
  then show ?thesis by (simp add: stop_without_server)
next
  case (Some srv)
  show ?thesis
    using Some by (simp add: stop_idempotent stop_with_server [OF Some])
qed

theorem stop_closes_and_destroys_witness:
  "httpServer (state (example_world init_state \<lparr>title = [], artist = []\<rparr>)) = None \<and>
   stop (example_world init_state \<lparr>title = [], artist = []\<rparr>)
     = example_world init_state \<lparr>title = [], artist = []\<rparr> \<and>
   httpServer (state (example_world listening_state \<lparr>title = [], artist = []\<rparr>))
     = Some \<lparr>listening = True\<rparr> \<and>
   httpServer (state (stop (example_world listening_state \<lparr>title = [], artist = []\<rparr>)))
     = Some \<lparr>listening = False\<rparr> \<and>
   destroyed (sockets (stop (example_world listening_state \<lparr>title = [], artist = []\<rparr>)) 11) \<and>
   destroyed (sockets (stop (example_world listening_state \<lparr>title = [], artist = []\<rparr>)) 12) \<and>
   stop (stop (example_world listening_state \<lparr>title = [], artist = []\<rparr>))
     = stop (example_world listening_state \<lparr>title = [], artist = []\<rparr>)"
  using stop_closes_and_destroys [of "example_world init_state \<lparr>title = [], artist = []\<rparr>"]
    stop_closes_and_destroys [of "example_world listening_state \<lparr>title = [], artist = []\<rparr>"]
  by (simp add: example_world_def init_state_def listening_state_def)

lemmas utf8_eval =
  utf8_encode_def utf8_chunks_def utf8_bytes_def is_high_surrogate_def is_low_surrogate_def


section \<open>The upgrade handler\<close>

lemma reply_frame_cong:
  "state w = state w' \<Longrightarrow> heap w = heap w' \<Longrightarrow> reply_frame ser w = reply_frame ser w'"
  by (simp add: reply_frame_def)

lemma upgrade_register_simps [simp]:
  "sockets (upgrade_register s w) = sockets w"
  "heap (upgrade_register s w) = heap w"
  "lastSongInfo (state (upgrade_register s w)) = lastSongInfo (state w)"
  "wsSockets (state (upgrade_register s w)) =
     AList.update (nextSocketId (state w)) s (wsSockets (state w))"
  "httpSockets (state (upgrade_register s w)) = httpSockets (state w)"
  "nextSocketId (state (upgrade_register s w)) = nextSocketId (state w) + 1"
  "ready (state (upgrade_register s w)) = ready (state w)"
  "httpServer (state (upgrade_register s w)) = httpServer (state w)"
  by (simp_all add: upgrade_register_def Let_def)

lemma on_upgrade_eq:
  "on_upgrade ser req s w =
     (case reply_frame ser w of
        Inl e \<Rightarrow> (Some e, upgrade_handshake req s (upgrade_register s w))
      | Inr f \<Rightarrow> (None, socket_write s f (upgrade_handshake req s (upgrade_register s w))))"
proof -
  have "reply_frame ser (upgrade_handshake req s (upgrade_register s w)) = reply_frame ser w"
    by (simp add: reply_frame_def upgrade_handshake_def)
  then show ?thesis
    by (simp add: on_upgrade_def upgrade_push_def)
qed

lemma on_upgrade_state:
  "state (snd (on_upgrade ser req s w)) = state (upgrade_register s w)"
  by (simp add: on_upgrade_eq upgrade_handshake_def split: sum.splits)

lemma on_upgrade_socket:
  "sockets (snd (on_upgrade ser req s w)) s =
     (sockets w s)\<lparr>writes := writes (sockets w s) @
        utf8_encode (handshake_response (responseKey req)) #
        (case reply_frame ser w of Inl e \<Rightarrow> [] | Inr f \<Rightarrow> [f])\<rparr>"
  by (simp add: on_upgrade_eq upgrade_handshake_def socket_write_sockets split: sum.splits)

lemma reply_frame_None:
  "lastSongInfo (state w) = None \<Longrightarrow> reply_frame ser w = Inr [0x81, 0x02, 0x7B, 0x7D]"
proof -
  assume n: "lastSongInfo (state w) = None"
  have e: "utf8_encode [0x7B, 0x7D] = [0x7B, 0x7D]"
    by (simp add: utf8_eval)
  have "byteLength (stringify_reply ser (heap w) None) < 126"
    by (simp add: stringify_reply_def byteLength_def e)
  from constructReply_short [of "stringify_reply ser (heap w)" None, OF this] show ?thesis
    by (simp add: reply_frame_def n stringify_reply_def byteLength_def e)
qed

lemma reply_frame_payload:
  assumes "reply_frame ser w = Inr f"
  shows "\<exists>hdr. f = hdr @ utf8_encode (stringify_reply ser (heap w) (lastSongInfo (state w)))"
proof -
  let ?d = "lastSongInfo (state w)" and ?st = "stringify_reply ser (heap w)"
  consider (a) "byteLength (?st ?d) < 126"
    | (b) "126 \<le> byteLength (?st ?d)" "byteLength (?st ?d) \<le> 65535"
    | (c) "65535 < byteLength (?st ?d)"
    by linarith
  then show ?thesis
  proof cases
    case a
    from constructReply_short [of ?st ?d, OF a] assms
    have "f = [0x81, of_nat (byteLength (?st ?d))] @ utf8_encode (?st ?d)"
      by (simp add: reply_frame_def)
    then show ?thesis by blast
  next
    case b
    from constructReply_long [of ?st ?d, OF b] assms
    have "f = [0x81, 126, of_nat (byteLength (?st ?d) div 256),
               of_nat (byteLength (?st ?d) mod 256)] @ utf8_encode (?st ?d)"
      by (simp add: reply_frame_def)
    then show ?thesis by blast
  next
    case c
    from constructReply_too_long [of ?st ?d, OF c] assms show ?thesis
      by (simp add: reply_frame_def)
  qed
qed


text \<open>
  The example state is the one the handlers produce: the server starts and listens,
  socket 11 connects and upgrades, socket 12 connects.
\<close>

lemma listening_state_reached:
  "state (on_connection 12 (snd (on_upgrade ser req 11 (on_connection 11
     (on_listening (start (example_world init_state i))))))) = listening_state"
  by (simp add: on_connection_def on_upgrade_state upgrade_register_def on_listening_def
      start_def example_world_def init_state_def listening_state_def Let_def)

lemma update_alist_lookup: "map_of (AList.update k v al) k = Some v"
  by (simp add: update_conv')

lemma on_upgrade_runs:
  "on_upgrade ser req s w = run_statements (upgrade_statements ser req s) w"
  by (simp add: on_upgrade_def upgrade_statements_def upgrade_push_def split: sum.splits)

lemma upgrade_trace:
  "statement_trace (upgrade_statements ser req s) w =
     [upgrade_register s w,
      upgrade_handshake req s (upgrade_register s w),
      snd (on_upgrade ser req s w)]"
  by (simp add: on_upgrade_def upgrade_statements_def upgrade_push_def split: sum.splits)

text \<open>
  C9, as stated, fails: after the first statement of the handler the connection is in the
  upgraded registry while nothing has been written to its socket; the handshake response
  is written by the statement that follows.
\<close>

theorem upgrade_registers_before_handshake:
  "wsSockets (state (statement_trace
       (upgrade_statements example_ser \<lparr>sec_websocket_key = Some []\<rparr> 12)
       (example_world listening_state \<lparr>title = [], artist = []\<rparr>) ! 0))
     = [(1, 11), (3, 12)] \<and>
   writes (sockets (statement_trace
       (upgrade_statements example_ser \<lparr>sec_websocket_key = Some []\<rparr> 12)
       (example_world listening_state \<lparr>title = [], artist = []\<rparr>) ! 0) 12)
     = [] \<and>
   writes (sockets (statement_trace
       (upgrade_statements example_ser \<lparr>sec_websocket_key = Some []\<rparr> 12)
       (example_world listening_state \<lparr>title = [], artist = []\<rparr>) ! 1) 12)
     = [utf8_encode (handshake_response (responseKey \<lparr>sec_websocket_key = Some []\<rparr>))]"
  by (simp add: upgrade_trace upgrade_handshake_def socket_write_sockets example_world_def
      listening_state_def fresh_socket_def)

text \<open>
  C9, amended. The upgrade handler inserts the connection into the upgraded registry in
  its first statement, before the accept token is computed and the handshake response
  written: after that statement the entry is there and no socket has been written to.
  The next statement writes the handshake response to the registered connection, and the
  entry and the handshake response are both there when the handler ends.
\<close>

theorem upgrade_registers_then_writes:
  "on_upgrade ser req s w = run_statements (upgrade_statements ser req s) w \<and>
   length (statement_trace (upgrade_statements ser req s) w) = 3 \<and>
   wsSockets (state (statement_trace (upgrade_statements ser req s) w ! 0)) =
     AList.update (nextSocketId (state w)) s (wsSockets (state w)) \<and>
   sockets (statement_trace (upgrade_statements ser req s) w ! 0) = sockets w \<and>
   wsSockets (state (statement_trace (upgrade_statements ser req s) w ! 1)) =
     AList.update (nextSocketId (state w)) s (wsSockets (state w)) \<and>
   writes (sockets (statement_trace (upgrade_statements ser req s) w ! 1) s) =
     writes (sockets w s) @ [utf8_encode (handshake_response (responseKey req))] \<and>
   statement_trace (upgrade_statements ser req s) w ! 2 = snd (on_upgrade ser req s w) \<and>
   map_of (wsSockets (state (snd (on_upgrade ser req s w)))) (nextSocketId (state w)) = Some s \<and>
   (\<exists>rest. writes (sockets (snd (on_upgrade ser req s w)) s) =
      writes (sockets w s) @ utf8_encode (handshake_response (responseKey req)) # rest)"
  by (simp add: on_upgrade_runs [symmetric] upgrade_trace upgrade_handshake_def
      socket_write_sockets on_upgrade_state on_upgrade_socket update_alist_lookup)

text \<open>
  C2, amended. The upgrade handler has no rejection path. For every request, also with
  the key header absent or empty, it registers the connection under the next identifier,
  leaves the socket open and writes the handshake response with an accept token; the token
  is computed from the text \<open>undefined\<close> when the header is absent, and from the empty
  key when the header is empty.
\<close>

theorem upgrade_never_rejects:
  "wsSockets (state (snd (on_upgrade ser req s w))) =
     AList.update (nextSocketId (state w)) s (wsSockets (state w)) \<and>
   nextSocketId (state (snd (on_upgrade ser req s w))) = nextSocketId (state w) + 1 \<and>
   destroyed (sockets (snd (on_upgrade ser req s w)) s) = destroyed (sockets w s) \<and>
   (\<exists>rest. writes (sockets (snd (on_upgrade ser req s w)) s) =
      writes (sockets w s) @ utf8_encode (handshake_response (responseKey req)) # rest) \<and>
   responseKey \<lparr>sec_websocket_key = None\<rparr> = accept_token_spec (js ''undefined'') \<and>
   responseKey \<lparr>sec_websocket_key = Some []\<rparr> = accept_token_spec []"
  by (simp add: on_upgrade_state on_upgrade_socket responseKey_def upgrade_key_def
      accept_token_spec_def String_trim_def)

text \<open>
  C6, as stated, fails: with no song info stored, the frame pushed after the handshake
  carries the JSON text \<open>{}\<close>, not an object with a \<open>playbackInfo\<close> member holding
  \<open>null\<close>.
\<close>

theorem first_frame_is_empty_object:
  "reply_frame example_ser (example_world listening_state \<lparr>title = [], artist = []\<rparr>)
     = Inr [0x81, 0x02, 0x7B, 0x7D] \<and>
   last (writes (sockets (snd (on_upgrade example_ser \<lparr>sec_websocket_key = Some []\<rparr> 12
       (example_world listening_state \<lparr>title = [], artist = []\<rparr>))) 12))
     = [0x81, 0x02, 0x7B, 0x7D] \<and>
   utf8_decode (drop 2 [0x81, 0x02, 0x7B, 0x7D]) = Some (js ''{}'') \<and>
   js ''{}'' \<noteq> [0x7B, 0x22] @ js ''playbackInfo'' @ [0x22, 0x3A] @ js ''null'' @ [0x7D]"
proof -
  let ?w = "example_world listening_state \<lparr>title = [], artist = []\<rparr>"
  have n: "lastSongInfo (state ?w) = None"
    by (simp add: example_world_def listening_state_def)
  have d: "utf8_decode [0x7B, 0x7D] = Some (js ''{}'')"
    by (simp add: utf8_decode_def utf16_units_def js_def)
  show ?thesis
    by (simp add: reply_frame_None [OF n] on_upgrade_socket d) (simp add: js_def)
qed

lemma updateActivity_broadcast:
  assumes rdy: "ready (state w)"
    and ne: "\<not> (title (heap w r) = [] \<and> artist (heap w r) = [])"
    and ok: "updateActivity ser r w = (None, w')"
    and reg: "s \<in> snd ` set (wsSockets (state w))"
  shows "\<exists>f. reply_frame ser w' = Inr f \<and>
           sockets w' s = (sockets w s)\<lparr>writes := writes (sockets w s) @
             replicate (count_list (Object_values (wsSockets (state w))) s) f\<rparr>"
proof -
  let ?w1 = "w\<lparr>state := (state w)\<lparr>lastSongInfo := Some r\<rparr>\<rparr>"
  let ?w2 = "snd (pad_title r ?w1)"
  let ?w3 = "snd (pad_artist r ?w2)"
  let ?ss = "Object_values (wsSockets (state w))"
  have st3: "state ?w3 = (state w)\<lparr>lastSongInfo := Some r\<rparr>" and so3: "sockets ?w3 = sockets w"
    by (simp_all add: pad_artist_frame pad_title_eq)
  have u: "updateActivity ser r w =
           (case fst (pad_artist r ?w2) of
              Some e \<Rightarrow> (Some e, ?w3)
            | None \<Rightarrow> broadcast ser (Object_values (wsSockets (state ?w3))) ?w3)"
    using rdy ne
    by (auto simp add: updateActivity_def Let_def pad_title_eq split: prod.splits option.splits)
  have b: "broadcast ser ?ss ?w3 = (None, w')"
    using ok unfolding u by (simp add: st3 split: option.splits)
  have nonempty: "?ss \<noteq> []"
    using reg by (metis empty_iff list.set(1) set_Object_values)
  show ?thesis
  proof (cases "reply_frame ser ?w3")
    case (Inl e)
    then show ?thesis
      using b nonempty by (simp add: broadcast_throws)
  next
    case (Inr f)
    then have w': "w' = fold (\<lambda>s. socket_write s f) ?ss ?w3"
      using b by (simp add: broadcast_frames)
    have "reply_frame ser w' = reply_frame ser ?w3"
      unfolding w' by (rule reply_frame_cong) simp_all
    then show ?thesis
      using Inr by (simp add: w' fold_socket_write_sockets so3)
  qed
qed

text \<open>
  C6, amended. The frame pushed right after the handshake and each frame written by a
  broadcast is \<open>constructReply\<close> of \<open>{songInfo: state.lastSongInfo}\<close>: its payload is the
  JSON text with the single member \<open>songInfo\<close> holding the current song info, and the
  text \<open>{}\<close> when no song info has been stored yet.
\<close>

theorem pushed_frames_carry_songInfo:
  "(\<forall>f. reply_frame ser w = Inr f \<longrightarrow>
      writes (sockets (snd (on_upgrade ser req s w)) s) =
        writes (sockets w s) @ [utf8_encode (handshake_response (responseKey req)), f]) \<and>
   (ready (state w) \<and> \<not> (title (heap w r) = [] \<and> artist (heap w r) = []) \<and>
    updateActivity ser r w = (None, w') \<and> s \<in> snd ` set (wsSockets (state w)) \<longrightarrow>
      (\<exists>f. reply_frame ser w' = Inr f \<and> lastSongInfo (state w') = Some r \<and>
           writes (sockets w' s) = writes (sockets w s) @
             replicate (count_list (Object_values (wsSockets (state w))) s) f)) \<and>
   (\<forall>f. reply_frame ser w = Inr f \<longrightarrow>
      (lastSongInfo (state w) = None \<longrightarrow> f = [0x81, 0x02, 0x7B, 0x7D]) \<and>
      (\<forall>r. lastSongInfo (state w) = Some r \<longrightarrow>
         (\<exists>hdr. f = hdr @ utf8_encode
            ([0x7B, 0x22] @ js ''songInfo'' @ [0x22, 0x3A] @ ser (heap w r) @ [0x7D]))))"
proof (intro conjI allI impI)
  fix f assume "reply_frame ser w = Inr f"
  then show "writes (sockets (snd (on_upgrade ser req s w)) s) =
        writes (sockets w s) @ [utf8_encode (handshake_response (responseKey req)), f]"
    by (simp add: on_upgrade_socket)
next
  assume h: "ready (state w) \<and> \<not> (title (heap w r) = [] \<and> artist (heap w r) = []) \<and>
    updateActivity ser r w = (None, w') \<and> s \<in> snd ` set (wsSockets (state w))"
  then obtain f where f: "reply_frame ser w' = Inr f"
    "sockets w' s = (sockets w s)\<lparr>writes := writes (sockets w s) @
             replicate (count_list (Object_values (wsSockets (state w))) s) f\<rparr>"
    using updateActivity_broadcast [of w r ser w' s] by blast
  have "state w' = (state w)\<lparr>lastSongInfo := Some r\<rparr>"
    using h updateActivity_ready_frame(1) [of w r ser] by simp
  then show "\<exists>f. reply_frame ser w' = Inr f \<and> lastSongInfo (state w') = Some r \<and>
           writes (sockets w' s) = writes (sockets w s) @
             replicate (count_list (Object_values (wsSockets (state w))) s) f"
    using f by simp
next
  fix f assume "reply_frame ser w = Inr f" and "lastSongInfo (state w) = None"
  then show "f = [0x81, 0x02, 0x7B, 0x7D]"
    by (simp add: reply_frame_None)
next
  fix f r assume "reply_frame ser w = Inr f" and "lastSongInfo (state w) = Some r"
  then show "\<exists>hdr. f = hdr @ utf8_encode
            ([0x7B, 0x22] @ js ''songInfo'' @ [0x22, 0x3A] @ ser (heap w r) @ [0x7D])"
    using reply_frame_payload [of ser w f] by (simp add: stringify_reply_def)
qed


theorem pushed_frames_carry_songInfo_witness:
  "reply_frame example_ser
      (example_world listening_state \<lparr>title = js ''A'', artist = js ''B''\<rparr>)
     = Inr [0x81, 0x02, 0x7B, 0x7D] \<and>
   writes (sockets (snd (on_upgrade example_ser \<lparr>sec_websocket_key = Some []\<rparr> 12
      (example_world listening_state \<lparr>title = js ''A'', artist = js ''B''\<rparr>))) 12)
     = [utf8_encode (handshake_response (responseKey \<lparr>sec_websocket_key = Some []\<rparr>)),
        [0x81, 0x02, 0x7B, 0x7D]] \<and>
   ready (state (example_world listening_state \<lparr>title = js ''A'', artist = js ''B''\<rparr>)) \<and>
   \<not> (title (heap (example_world listening_state \<lparr>title = js ''A'', artist = js ''B''\<rparr>) 0) = [] \<and>
      artist (heap (example_world listening_state \<lparr>title = js ''A'', artist = js ''B''\<rparr>) 0) = []) \<and>
   fst (updateActivity example_ser 0
      (example_world listening_state \<lparr>title = js ''A'', artist = js ''B''\<rparr>)) = None \<and>
   11 \<in> snd ` set (wsSockets (state
      (example_world listening_state \<lparr>title = js ''A'', artist = js ''B''\<rparr>))) \<and>
   lastSongInfo (state (snd (updateActivity example_ser 0
      (example_world listening_state \<lparr>title = js ''A'', artist = js ''B''\<rparr>)))) = Some 0 \<and>
   reply_frame example_ser (snd (updateActivity example_ser 0
      (example_world listening_state \<lparr>title = js ''A'', artist = js ''B''\<rparr>)))
     = Inr [0x81, 0x2A, 0x7B, 0x22, 0x73, 0x6F, 0x6E, 0x67, 0x49, 0x6E, 0x66, 0x6F, 0x22, 0x3A,
          0x7B, 0x22, 0x74, 0x69, 0x74, 0x6C, 0x65, 0x22, 0x3A, 0x22, 0x41, 0xE3, 0x85, 0xA4,
          0x22, 0x2C, 0x22, 0x61, 0x72, 0x74, 0x69, 0x73, 0x74, 0x22, 0x3A, 0x22, 0x42, 0x22,
          0x7D, 0x7D] \<and>
   writes (sockets (snd (updateActivity example_ser 0
      (example_world listening_state \<lparr>title = js ''A'', artist = js ''B''\<rparr>))) 11)
     = [[0x81, 0x2A, 0x7B, 0x22, 0x73, 0x6F, 0x6E, 0x67, 0x49, 0x6E, 0x66, 0x6F, 0x22, 0x3A,
          0x7B, 0x22, 0x74, 0x69, 0x74, 0x6C, 0x65, 0x22, 0x3A, 0x22, 0x41, 0xE3, 0x85, 0xA4,
          0x22, 0x2C, 0x22, 0x61, 0x72, 0x74, 0x69, 0x73, 0x74, 0x22, 0x3A, 0x22, 0x42, 0x22,
          0x7D, 0x7D]] \<and>
   (\<exists>hdr. [0x81, 0x2A, 0x7B, 0x22, 0x73, 0x6F, 0x6E, 0x67, 0x49, 0x6E, 0x66, 0x6F, 0x22, 0x3A,
          0x7B, 0x22, 0x74, 0x69, 0x74, 0x6C, 0x65, 0x22, 0x3A, 0x22, 0x41, 0xE3, 0x85, 0xA4,
          0x22, 0x2C, 0x22, 0x61, 0x72, 0x74, 0x69, 0x73, 0x74, 0x22, 0x3A, 0x22, 0x42, 0x22,
          0x7D, 0x7D] = hdr @ utf8_encode
        ([0x7B, 0x22] @ js ''songInfo'' @ [0x22, 0x3A] @
         example_ser \<lparr>title = [0x41, 0x3164], artist = [0x42]\<rparr> @ [0x7D]))"
proof -
  let ?w = "example_world listening_state \<lparr>title = js ''A'', artist = js ''B''\<rparr>"
  let ?w' = "snd (updateActivity example_ser 0 ?w)"
  let ?f = "[0x81, 0x2A, 0x7B, 0x22, 0x73, 0x6F, 0x6E, 0x67, 0x49, 0x6E, 0x66, 0x6F, 0x22, 0x3A,
          0x7B, 0x22, 0x74, 0x69, 0x74, 0x6C, 0x65, 0x22, 0x3A, 0x22, 0x41, 0xE3, 0x85, 0xA4,
          0x22, 0x2C, 0x22, 0x61, 0x72, 0x74, 0x69, 0x73, 0x74, 0x22, 0x3A, 0x22, 0x42, 0x22,
          0x7D, 0x7D] :: buffer"
  have h: "ready (state ?w)" "\<not> (title (heap ?w 0) = [] \<and> artist (heap ?w 0) = [])"
    "updateActivity example_ser 0 ?w = (None, ?w')" "11 \<in> snd ` set (wsSockets (state ?w))"
    "lastSongInfo (state ?w) = None"
    by (simp_all add: update_A_B) (simp_all add: example_world_def listening_state_def js_def)
  have w': "state ?w' = listening_state\<lparr>lastSongInfo := Some 0\<rparr>"
    "heap ?w' 0 = \<lparr>title = [0x41, 0x3164], artist = [0x42]\<rparr>"
    "writes (sockets ?w' 11) = [?f]" "writes (sockets ?w 11) = []"
    by (simp_all add: update_A_B) (simp add: example_world_def fresh_socket_def)
  have rf: "reply_frame example_ser ?w' = Inr ?f"
    by (simp only: update_A_B)
       (simp add: reply_frame_def listening_state_def constructReply_short stringify_reply_def
          example_ser_def js_def byteLength_def utf8_eval)
  have rf0: "reply_frame example_ser ?w = Inr [0x81, 0x02, 0x7B, 0x7D]"
    using h(5) by (rule reply_frame_None)
  have up: "writes (sockets ?w 12) = []"
    by (simp add: example_world_def fresh_socket_def)
  note upgrade_at_w = pushed_frames_carry_songInfo
    [where ser = example_ser and w = ?w and req = "\<lparr>sec_websocket_key = Some []\<rparr>"
       and s = 12 and r = 0 and w' = ?w']
  note update_at_w = pushed_frames_carry_songInfo
    [where ser = example_ser and w = ?w and req = "\<lparr>sec_websocket_key = Some []\<rparr>"
       and s = 11 and r = 0 and w' = ?w']
  note at_w' = pushed_frames_carry_songInfo
    [where ser = example_ser and w = ?w' and req = "\<lparr>sec_websocket_key = Some []\<rparr>"
       and s = 11 and r = 0 and w' = ?w']
  have A: "writes (sockets (snd (on_upgrade example_ser \<lparr>sec_websocket_key = Some []\<rparr> 12 ?w)) 12)
           = writes (sockets ?w 12) @
             [utf8_encode (handshake_response (responseKey \<lparr>sec_websocket_key = Some []\<rparr>)),
              [0x81, 0x02, 0x7B, 0x7D]]"
    using upgrade_at_w rf0 by blast
  have B: "\<exists>f. reply_frame example_ser ?w' = Inr f \<and> lastSongInfo (state ?w') = Some 0 \<and>
           writes (sockets ?w' 11) = writes (sockets ?w 11) @
             replicate (count_list (Object_values (wsSockets (state ?w))) 11) f"
    using update_at_w h(1-4) by blast
  have s0: "lastSongInfo (state ?w') = Some 0"
    using B by blast
  have C: "\<exists>hdr. ?f = hdr @ utf8_encode
        ([0x7B, 0x22] @ js ''songInfo'' @ [0x22, 0x3A] @ example_ser (heap ?w' 0) @ [0x7D])"
    using at_w' rf s0 by blast
  have n: "fst (updateActivity example_ser 0 ?w) = None"
    by (simp add: update_A_B)
  show ?thesis
    using C by (simp add: rf0 A up h(1,2,4) s0 rf w'(2,3) n)
qed

section \<open>The accept token\<close>

lemmas sha1_eval =
  sha1_def sha1_init_def sha1_pad_def zero_bytes.simps be64_bytes_def sha1_blocks.simps
  sha1_block_def sha1_schedule.simps sha1_rounds_def sha1_f_def sha1_k_def rotl32_def
  add32_def not32_def be32_bytes_def

lemmas base64_eval = base64_char_def base64_alphabet_def

lemma utf8_magic:
  "utf8_encode magic = [0x32, 0x35, 0x38, 0x45, 0x41, 0x46, 0x41, 0x35, 0x2D, 0x45, 0x39, 0x31,
   0x34, 0x2D, 0x34, 0x37, 0x44, 0x41, 0x2D, 0x39, 0x35, 0x43, 0x41, 0x2D, 0x43, 0x35, 0x41,
   0x42, 0x30, 0x44, 0x43, 0x38, 0x35, 0x42, 0x31, 0x31]"
  by (simp add: magic_def js_def utf8_eval)

lemma sha1_magic:
  "sha1 [0x32, 0x35, 0x38, 0x45, 0x41, 0x46, 0x41, 0x35, 0x2D, 0x45, 0x39, 0x31, 0x34, 0x2D,
   0x34, 0x37, 0x44, 0x41, 0x2D, 0x39, 0x35, 0x43, 0x41, 0x2D, 0x43, 0x35, 0x41, 0x42, 0x30,
   0x44, 0x43, 0x38, 0x35, 0x42, 0x31, 0x31] = [0x29, 0xF8, 0x7D, 0x40, 0x8B, 0x0C, 0x55, 0x97,
   0x25, 0xEB, 0x11, 0x0F, 0x63, 0x13, 0xC7, 0xCD, 0x6F, 0x12, 0x67, 0xCC]"
  by (simp add: sha1_eval)

lemma base64_magic:
  "base64 [0x29, 0xF8, 0x7D, 0x40, 0x8B, 0x0C, 0x55, 0x97, 0x25, 0xEB, 0x11, 0x0F, 0x63, 0x13,
   0xC7, 0xCD, 0x6F, 0x12, 0x67, 0xCC] = js ''Kfh9QIsMVZcl6xEPYxPHzW8SZ8w=''"
  by (simp add: base64_eval js_def)

lemma utf8_nbsp_magic:
  "utf8_encode (0xA0 # magic) = [0xC2, 0xA0, 0x32, 0x35, 0x38, 0x45, 0x41, 0x46, 0x41, 0x35,
   0x2D, 0x45, 0x39, 0x31, 0x34, 0x2D, 0x34, 0x37, 0x44, 0x41, 0x2D, 0x39, 0x35, 0x43, 0x41,
   0x2D, 0x43, 0x35, 0x41, 0x42, 0x30, 0x44, 0x43, 0x38, 0x35, 0x42, 0x31, 0x31]"
  by (simp add: magic_def js_def utf8_eval)

lemma sha1_nbsp_magic:
  "sha1 [0xC2, 0xA0, 0x32, 0x35, 0x38, 0x45, 0x41, 0x46, 0x41, 0x35, 0x2D, 0x45, 0x39, 0x31,
   0x34, 0x2D, 0x34, 0x37, 0x44, 0x41, 0x2D, 0x39, 0x35, 0x43, 0x41, 0x2D, 0x43, 0x35, 0x41,
   0x42, 0x30, 0x44, 0x43, 0x38, 0x35, 0x42, 0x31, 0x31] = [0x1C, 0x73, 0x91, 0x5A, 0x93, 0xAB,
   0x01, 0xE7, 0x2D, 0xC1, 0x4B, 0x1C, 0x63, 0xDD, 0xFD, 0x24, 0xC9, 0x16, 0x9F, 0x3B]"
  by (simp add: sha1_eval)

lemma base64_nbsp_magic:
  "base64 [0x1C, 0x73, 0x91, 0x5A, 0x93, 0xAB, 0x01, 0xE7, 0x2D, 0xC1, 0x4B, 0x1C, 0x63, 0xDD,
   0xFD, 0x24, 0xC9, 0x16, 0x9F, 0x3B] = js ''HHORWpOrAectwUscY939JMkWnzs=''"
  by (simp add: base64_eval js_def)

lemma utf8_sample:
  "utf8_encode (js ''dGhlIHNhbXBsZSBub25jZQ=='' @ magic) = [0x64, 0x47, 0x68, 0x6C, 0x49, 0x48,
   0x4E, 0x68, 0x62, 0x58, 0x42, 0x73, 0x5A, 0x53, 0x42, 0x75, 0x62, 0x32, 0x35, 0x6A, 0x5A,
   0x51, 0x3D, 0x3D, 0x32, 0x35, 0x38, 0x45, 0x41, 0x46, 0x41, 0x35, 0x2D, 0x45, 0x39, 0x31,
   0x34, 0x2D, 0x34, 0x37, 0x44, 0x41, 0x2D, 0x39, 0x35, 0x43, 0x41, 0x2D, 0x43, 0x35, 0x41,
   0x42, 0x30, 0x44, 0x43, 0x38, 0x35, 0x42, 0x31, 0x31]"
  by (simp add: magic_def js_def utf8_eval)

lemma sha1_sample:
  "sha1 [0x64, 0x47, 0x68, 0x6C, 0x49, 0x48, 0x4E, 0x68, 0x62, 0x58, 0x42, 0x73, 0x5A, 0x53,
   0x42, 0x75, 0x62, 0x32, 0x35, 0x6A, 0x5A, 0x51, 0x3D, 0x3D, 0x32, 0x35, 0x38, 0x45, 0x41,
   0x46, 0x41, 0x35, 0x2D, 0x45, 0x39, 0x31, 0x34, 0x2D, 0x34, 0x37, 0x44, 0x41, 0x2D, 0x39,
   0x35, 0x43, 0x41, 0x2D, 0x43, 0x35, 0x41, 0x42, 0x30, 0x44, 0x43, 0x38, 0x35, 0x42, 0x31,
   0x31] = [0xB3, 0x7A, 0x4F, 0x2C, 0xC0, 0x62, 0x4F, 0x16, 0x90, 0xF6, 0x46, 0x06, 0xCF, 0x38,
   0x59, 0x45, 0xB2, 0xBE, 0xC4, 0xEA]"
  by (simp add: sha1_eval)

lemma base64_sample:
  "base64 [0xB3, 0x7A, 0x4F, 0x2C, 0xC0, 0x62, 0x4F, 0x16, 0x90, 0xF6, 0x46, 0x06, 0xCF, 0x38,
   0x59, 0x45, 0xB2, 0xBE, 0xC4, 0xEA] = js ''s3pPLMBiTxaQ9kYGzzhZRbK+xOo=''"
  by (simp add: base64_eval js_def)


lemma token_magic: "base64 (sha1 (utf8_encode magic)) = js ''Kfh9QIsMVZcl6xEPYxPHzW8SZ8w=''"
  by (simp only: utf8_magic sha1_magic base64_magic)

lemma token_nbsp_magic:
  "base64 (sha1 (utf8_encode (0xA0 # magic))) = js ''HHORWpOrAectwUscY939JMkWnzs=''"
  by (simp only: utf8_nbsp_magic sha1_nbsp_magic base64_nbsp_magic)

lemma token_sample:
  "base64 (sha1 (utf8_encode (js ''dGhlIHNhbXBsZSBub25jZQ=='' @ magic))) =
   js ''s3pPLMBiTxaQ9kYGzzhZRbK+xOo=''"
  by (simp only: utf8_sample sha1_sample base64_sample)

lemma upgrade_empty_key:
  "on_upgrade example_ser \<lparr>sec_websocket_key = Some []\<rparr> 12
       (example_world listening_state \<lparr>title = [], artist = []\<rparr>) =
   (None,
    \<lparr>state = listening_state\<lparr>wsSockets := [(1, 11), (3, 12)], nextSocketId := 4\<rparr>,
     sockets = (\<lambda>_. fresh_socket)(12 := \<lparr>destroyed = False, writes =
       [utf8_encode (handshake_response (js ''Kfh9QIsMVZcl6xEPYxPHzW8SZ8w='')),
        [0x81, 0x02, 0x7B, 0x7D]]\<rparr>),
     heap = (\<lambda>_. \<lparr>title = [], artist = []\<rparr>)\<rparr>)"
proof -
  let ?w = "example_world listening_state \<lparr>title = [], artist = []\<rparr>"
  have n: "lastSongInfo (state ?w) = None"
    by (simp add: example_world_def listening_state_def)
  have k: "responseKey \<lparr>sec_websocket_key = Some []\<rparr> = js ''Kfh9QIsMVZcl6xEPYxPHzW8SZ8w=''"
    by (simp add: responseKey_def upgrade_key_def String_trim_def token_magic)
  show ?thesis
    by (simp add: on_upgrade_eq reply_frame_None [OF n] upgrade_handshake_def k)
       (simp add: socket_write_def upgrade_register_def example_world_def listening_state_def
          fresh_socket_def)
qed

text \<open>
  C2, as stated, fails: with an empty \<open>sec-websocket-key\<close> header the handler throws
  nothing, keeps the registry entry, leaves the socket open and writes a handshake
  response with an accept token, followed by the state frame.
\<close>

theorem upgrade_accepts_empty_key:
  "fst (on_upgrade example_ser \<lparr>sec_websocket_key = Some []\<rparr> 12
      (example_world listening_state \<lparr>title = [], artist = []\<rparr>)) = None \<and>
   wsSockets (state (snd (on_upgrade example_ser \<lparr>sec_websocket_key = Some []\<rparr> 12
      (example_world listening_state \<lparr>title = [], artist = []\<rparr>)))) = [(1, 11), (3, 12)] \<and>
   destroyed (sockets (snd (on_upgrade example_ser \<lparr>sec_websocket_key = Some []\<rparr> 12
      (example_world listening_state \<lparr>title = [], artist = []\<rparr>))) 12) = False \<and>
   writes (sockets (snd (on_upgrade example_ser \<lparr>sec_websocket_key = Some []\<rparr> 12
      (example_world listening_state \<lparr>title = [], artist = []\<rparr>))) 12)
     = [utf8_encode (handshake_response (js ''Kfh9QIsMVZcl6xEPYxPHzW8SZ8w='')),
        [0x81, 0x02, 0x7B, 0x7D]]"
  by (simp add: upgrade_empty_key)

text \<open>
  C3, as stated, fails: for a key that is a single no-break space the handler computes the
  token of the magic constant alone, which differs from the token of the key followed by
  the magic constant.
\<close>

theorem responseKey_ignores_surrounding_space:
  "responseKey \<lparr>sec_websocket_key = Some [0xA0]\<rparr> = js ''Kfh9QIsMVZcl6xEPYxPHzW8SZ8w='' \<and>
   accept_token_spec [0xA0] = js ''HHORWpOrAectwUscY939JMkWnzs='' \<and>
   responseKey \<lparr>sec_websocket_key = Some [0xA0]\<rparr> \<noteq> accept_token_spec [0xA0]"
proof -
  have a: "responseKey \<lparr>sec_websocket_key = Some [0xA0]\<rparr> = js ''Kfh9QIsMVZcl6xEPYxPHzW8SZ8w=''"
    by (simp add: responseKey_def upgrade_key_def String_trim_def is_js_space_def token_magic)
  have b: "accept_token_spec [0xA0] = js ''HHORWpOrAectwUscY939JMkWnzs=''"
    by (simp add: accept_token_spec_def token_nbsp_magic)
  have c: "js ''Kfh9QIsMVZcl6xEPYxPHzW8SZ8w='' \<noteq> js ''HHORWpOrAectwUscY939JMkWnzs=''"
    by (simp add: js_def)
  show ?thesis
    using c by (simp add: a b)
qed

text \<open>
  C3, amended. For every key string the accept token is the base64 encoding of the SHA-1
  digest of the UTF-8 bytes of the key, with leading and trailing white space removed,
  followed by the magic constant; for a key without such white space it is the token of
  the key itself. The token is a function of the key. The witness is the sample nonce of
  RFC 6455 with its known accept token.
\<close>

theorem responseKey_of_trimmed_key:
  "responseKey \<lparr>sec_websocket_key = Some key\<rparr> = accept_token_spec (String_trim key) \<and>
   (String_trim key = key \<longrightarrow>
      responseKey \<lparr>sec_websocket_key = Some key\<rparr> = accept_token_spec key)"
  by (simp add: responseKey_def upgrade_key_def accept_token_spec_def)

theorem responseKey_of_trimmed_key_witness:
  "String_trim (js ''dGhlIHNhbXBsZSBub25jZQ=='') = js ''dGhlIHNhbXBsZSBub25jZQ=='' \<and>
   responseKey \<lparr>sec_websocket_key = Some (js ''dGhlIHNhbXBsZSBub25jZQ=='')\<rparr>
     = accept_token_spec (js ''dGhlIHNhbXBsZSBub25jZQ=='') \<and>
   accept_token_spec (js ''dGhlIHNhbXBsZSBub25jZQ=='') = js ''s3pPLMBiTxaQ9kYGzzhZRbK+xOo=''"
proof -
  have t: "String_trim (js ''dGhlIHNhbXBsZSBub25jZQ=='') = js ''dGhlIHNhbXBsZSBub25jZQ==''"
    by (simp add: String_trim_def is_js_space_def js_def)
  have v: "accept_token_spec (js ''dGhlIHNhbXBsZSBub25jZQ=='') = js ''s3pPLMBiTxaQ9kYGzzhZRbK+xOo=''"
    by (simp add: accept_token_spec_def token_sample)
  show ?thesis
    using responseKey_of_trimmed_key [of "js ''dGhlIHNhbXBsZSBub25jZQ==''"]
    by (simp add: t v)
qed

end
